theory Spec2Isabelle
  imports Complex_Main "HOL-Library.Sublist" "HOL-Library.Multiset"
begin

section \<open>Python strings\<close>

text \<open>
  A Python \<open>str\<close> is a sequence of Unicode code points. The texts of this program are
  French, so a string is modelled as a \<^typ>\<open>string\<close> whose characters are the code
  points U+0000 to U+00FF (Latin-1): \<open>of_char c\<close> is the code point of \<open>c\<close>. The three
  character classes below are those of CPython restricted to that range.
\<close>

definition py_isspace :: "char \<Rightarrow> bool" where
  \<comment> \<open>\<open>str.isspace\<close>, which is also what \<open>str.split()\<close> and the regex class \<open>\s\<close> use:
      TAB to CR, FS to US, space, NEL and NBSP.\<close>
  "py_isspace c = (let n = (of_char c :: nat) in
     (9 \<le> n \<and> n \<le> 13) \<or> (28 \<le> n \<and> n \<le> 32) \<or> n = 133 \<or> n = 160)"

definition py_isalnum :: "char \<Rightarrow> bool" where
  \<comment> \<open>\<open>str.isalnum\<close>: letters, decimal digits, and the Latin-1 characters that are
      alphabetic (ordinal indicators, micro sign, accented letters) or numeric
      (superscript digits, vulgar fractions).\<close>
  "py_isalnum c = (let n = (of_char c :: nat) in
     (48 \<le> n \<and> n \<le> 57) \<or> (65 \<le> n \<and> n \<le> 90) \<or> (97 \<le> n \<and> n \<le> 122) \<or>
     n = 170 \<or> n = 178 \<or> n = 179 \<or> n = 181 \<or> n = 185 \<or> n = 186 \<or>
     (188 \<le> n \<and> n \<le> 190) \<or> (192 \<le> n \<and> n \<le> 214) \<or>
     (216 \<le> n \<and> n \<le> 246) \<or> (248 \<le> n \<and> n \<le> 255))"

definition re_word :: "char \<Rightarrow> bool" where
  \<comment> \<open>the regex class \<open>\w\<close> on a \<open>str\<close> pattern: alphanumeric or underscore\<close>
  "re_word c = (py_isalnum c \<or> c = CHR ''_'')"

definition lower_char :: "char \<Rightarrow> char" where
  \<comment> \<open>A to Z, and the accented capitals U+00C0 to U+00DE without the multiplication
      sign U+00D7, move up by 32; every other Latin-1 character is its own lowercase.\<close>
  "lower_char c = (let n = (of_char c :: nat) in
     if (65 \<le> n \<and> n \<le> 90) \<or> (192 \<le> n \<and> n \<le> 214) \<or> (216 \<le> n \<and> n \<le> 222)
     then char_of (n + 32) else c)"

definition py_lower :: "string \<Rightarrow> string" where
  "py_lower s = map lower_char s"

text \<open>\<open>s.split()\<close>: the maximal runs of non-space characters, in order.\<close>

fun split_from :: "string \<Rightarrow> string \<Rightarrow> string list" where
  "split_from w [] = (if w = [] then [] else [w])"
| "split_from w (c # cs) =
     (if py_isspace c then (if w = [] then split_from [] cs else w # split_from [] cs)
      else split_from (w @ [c]) cs)"

definition py_split :: "string \<Rightarrow> string list" where
  "py_split s = split_from [] s"

fun py_join :: "string \<Rightarrow> string list \<Rightarrow> string" where
  "py_join sep [] = []"
| "py_join sep [w] = w"
| "py_join sep (w # ws) = w @ sep @ py_join sep ws"

text \<open>\<open>sub in s\<close> on strings: \<open>sub\<close> occurs in \<open>s\<close> as a contiguous block.\<close>

fun py_in :: "string \<Rightarrow> string \<Rightarrow> bool" where
  "py_in sub [] = (sub = [])"
| "py_in sub (c # cs) = (prefix sub (c # cs) \<or> py_in sub cs)"

definition py_or :: "string \<Rightarrow> string \<Rightarrow> string" where
  \<comment> \<open>\<open>a or b\<close> on strings: the empty string is falsy\<close>
  "py_or a b = (if a = [] then b else a)"

definition get_or :: "'a \<Rightarrow> 'a option \<Rightarrow> 'a" where
  \<comment> \<open>\<open>d.get(key, default)\<close> for a key whose entry is \<open>Some v\<close> or absent\<close>
  "get_or dflt entry = (case entry of None \<Rightarrow> dflt | Some v \<Rightarrow> v)"

section \<open>Python numbers\<close>

text \<open>
  Floats are modelled by the rationals, with exact arithmetic. \<open>round(x, n)\<close> rounds to
  \<open>n\<close> decimals, a tie going to the even neighbour.
\<close>

definition round_half_even :: "rat \<Rightarrow> int" where
  "round_half_even x = (let f = \<lfloor>x\<rfloor>; d = x - of_int f in
     if d < 1 / 2 then f else if 1 / 2 < d then f + 1 else if even f then f else f + 1)"

definition py_round :: "rat \<Rightarrow> nat \<Rightarrow> rat" where
  "py_round x n = of_int (round_half_even (x * 10 ^ n)) / 10 ^ n"

section \<open>Exceptions and JSON values\<close>

datatype exc_class = JSONDecodeError | AttributeError | ValueError | TypeError | ReError | OtherError

text \<open>An exception is its class and its message (\<open>str(e)\<close>). Only subclasses of
  \<open>Exception\<close> are modelled.\<close>

datatype exn = Exn exc_class string

fun str_exn :: "exn \<Rightarrow> string" where
  "str_exn (Exn c msg) = msg"

text \<open>What \<open>json.loads\<close> returns: \<open>JObj\<close> holds the members in the order of the text.\<close>

datatype json =
    JNull
  | JBool bool
  | JNum rat
  | JNaN
  | JInfinity
  | JNegInfinity
  | JStr string
  | JArr "json list"
  | JObj "(string \<times> json) list"

type_synonym pydict = "string \<rightharpoonup> json"

definition dict_of :: "(string \<times> json) list \<Rightarrow> pydict" where
  \<comment> \<open>the \<open>dict\<close> built from the members: a repeated key keeps its last value\<close>
  "dict_of kvs = map_of (rev kvs)"

definition dict_get :: "pydict \<Rightarrow> string \<Rightarrow> json \<Rightarrow> json" where
  "dict_get d k dflt = (case d k of None \<Rightarrow> dflt | Some v \<Rightarrow> v)"

definition setdefault :: "pydict \<Rightarrow> string \<Rightarrow> json \<Rightarrow> pydict" where
  "setdefault d k v = (case d k of None \<Rightarrow> d(k \<mapsto> v) | Some old \<Rightarrow> d)"

fun type_name :: "json \<Rightarrow> string" where
  \<comment> \<open>\<open>type(v).__name__\<close> for the values that are not numbers; a number is an \<open>int\<close> or
      a \<open>float\<close>, which \<open>JNum\<close> does not tell apart, and its name is never used\<close>
  "type_name JNull = ''NoneType''"
| "type_name (JBool b) = ''bool''"
| "type_name (JStr s) = ''str''"
| "type_name (JArr xs) = ''list''"
| "type_name (JObj kvs) = ''dict''"
| "type_name v = ''float''"

fun py_ge60 :: "json \<Rightarrow> exn + bool" where
  \<comment> \<open>\<open>v >= 60\<close>: numbers compare (a \<open>bool\<close> is the integer 0 or 1, NaN compares false);
      any other value raises \<open>TypeError\<close>\<close>
  "py_ge60 (JNum x) = Inr (60 \<le> x)"
| "py_ge60 (JBool b) = Inr False"
| "py_ge60 JNaN = Inr False"
| "py_ge60 JInfinity = Inr True"
| "py_ge60 JNegInfinity = Inr False"
| "py_ge60 v = Inl (Exn TypeError
     ([CHR 0x27] @ ''>='' @ [CHR 0x27] @ '' not supported between instances of '' @
      [CHR 0x27] @ type_name v @ [CHR 0x27] @ '' and '' @ [CHR 0x27] @ ''int'' @ [CHR 0x27]))"

section \<open>ReponseAnalyzer (Questionnaire.py)\<close>

text \<open>
  The analyzer holds two optional capabilities. The spaCy pipeline is a library object:
  it is given by what the code reads from it, the lemmas of the nouns, verbs and
  adjectives that are not stop words, whether a text has a vector, and the similarity of
  two texts. The Gemini model is given by its reply to a prompt.
\<close>

record nlp_model =
  nlp_lemmas :: "string \<Rightarrow> string list"
  nlp_has_vector :: "string \<Rightarrow> bool"
  nlp_similarity :: "string \<Rightarrow> string \<Rightarrow> rat"

text \<open>
  A reply of \<open>generate_content\<close>: the call raises, or it returns a response whose
  \<open>text\<close> property raises, or the response has a text; the text comes with the value
  \<open>json.loads\<close> yields for it (\<open>None\<close> when it raises \<open>JSONDecodeError\<close>).
\<close>

datatype reply = CallRaises exn | TextRaises exn | Text string "json option"

record analyzer =
  nlp :: "nlp_model option"
  gemini_model :: "(string \<Rightarrow> reply) option"

record question_data =
  titre :: "string option"
  enonce :: "string option"
  reponse_attendue :: "string option"
  points_obligatoires :: "string list option"
  erreurs_a_eviter :: "string list option"

definition re_sub_non_word :: "string \<Rightarrow> string" where
  \<comment> \<open>\<open>re.sub(r'[^\w\s]', ' ', texte)\<close>\<close>
  "re_sub_non_word s = map (\<lambda>c. if re_word c \<or> py_isspace c then c else CHR '' '') s"

definition normaliser_texte :: "string \<Rightarrow> string" where
  "normaliser_texte texte = py_join '' '' (py_split (re_sub_non_word (py_lower texte)))"

definition stop_words :: "string list" where
  "stop_words = [''le'', ''la'', ''les'', ''un'', ''une'', ''des'', ''de'', ''du'',
     [CHR 0xE0], ''et'', ''ou'', ''est'', ''sont'', ''dans'', ''sur'', ''pour'']"

definition extraire_mots_cles :: "analyzer \<Rightarrow> string \<Rightarrow> string set" where
  "extraire_mots_cles self texte =
     (case nlp self of
        Some m \<Rightarrow> set (nlp_lemmas m texte)
      | None \<Rightarrow>
          set (filter (\<lambda>mot. 3 < length mot \<and> mot \<notin> set stop_words)
                 (py_split (normaliser_texte texte))))"

text \<open>\<open>ratio\<close> stands for \<open>SequenceMatcher(None, a, b).ratio()\<close> of difflib.\<close>

definition calculer_similarite ::
  "(string \<Rightarrow> string \<Rightarrow> rat) \<Rightarrow> analyzer \<Rightarrow> string \<Rightarrow> string \<Rightarrow> rat" where
  "calculer_similarite ratio self texte1 texte2 =
     (case nlp self of
        Some m \<Rightarrow>
          if \<not> nlp_has_vector m texte1 \<or> \<not> nlp_has_vector m texte2
          then ratio texte1 texte2
          else nlp_similarity m texte1 texte2
      | None \<Rightarrow> ratio (normaliser_texte texte1) (normaliser_texte texte2))"

record verification =
  presents :: "string list"
  absents :: "string list"
  partiels :: "string list"

text \<open>The loop of \<open>verifier_presence_elements\<close>: each element is appended to one list.
  The test \<open>len(common) >= len(keywords) * 0.7\<close> is written with the exact 7/10.\<close>

fun verifier_boucle ::
  "analyzer \<Rightarrow> string \<Rightarrow> string set \<Rightarrow> string list \<Rightarrow> verification \<Rightarrow> verification" where
  "verifier_boucle self reponse_norm mots_cles_reponse [] resultats = resultats"
| "verifier_boucle self reponse_norm mots_cles_reponse (element # reste) resultats =
     (let element_norm = normaliser_texte element;
          mots_cles_element = extraire_mots_cles self element
      in verifier_boucle self reponse_norm mots_cles_reponse reste
           (if py_in element_norm reponse_norm
            then resultats\<lparr>presents := presents resultats @ [element]\<rparr>
            else if mots_cles_element \<noteq> {} \<and>
                    of_nat (card mots_cles_element) * (7 / 10 :: rat)
                      \<le> of_nat (card (mots_cles_element \<inter> mots_cles_reponse))
            then resultats\<lparr>partiels := partiels resultats @ [element]\<rparr>
            else resultats\<lparr>absents := absents resultats @ [element]\<rparr>))"

definition verifier_presence_elements :: "analyzer \<Rightarrow> string \<Rightarrow> string list \<Rightarrow> verification" where
  "verifier_presence_elements self reponse_user elements_requis =
     verifier_boucle self (normaliser_texte reponse_user) (extraire_mots_cles self reponse_user)
       elements_requis \<lparr>presents = [], absents = [], partiels = []\<rparr>"

fun detecter_boucle :: "string \<Rightarrow> string list \<Rightarrow> string list \<Rightarrow> string list" where
  "detecter_boucle reponse_norm [] erreurs_detectees = erreurs_detectees"
| "detecter_boucle reponse_norm (erreur # reste) erreurs_detectees =
     detecter_boucle reponse_norm reste
       (if py_in (normaliser_texte erreur) reponse_norm
        then erreurs_detectees @ [erreur] else erreurs_detectees)"

definition detecter_erreurs :: "string \<Rightarrow> string list \<Rightarrow> string list" where
  "detecter_erreurs reponse_user erreurs = detecter_boucle (normaliser_texte reponse_user) erreurs []"

text \<open>
  A suggestion line is a fixed prefix (a pictogram and a phrase) followed by the listed
  points joined by a comma and a space; the four lines are kept as constructors:
  "Pensez a mentionner", "Developpez davantage", "Evitez de mentionner" with their
  points, and the line "Excellente reponse".
\<close>

datatype suggestion =
    Pensez_a_mentionner "string list"
  | Developpez_davantage "string list"
  | Evitez_de_mentionner "string list"
  | Excellente_reponse

definition generer_suggestions :: "verification \<Rightarrow> string list \<Rightarrow> suggestion list" where
  "generer_suggestions verification_elements erreurs_detectees =
     (let s1 = (if absents verification_elements \<noteq> []
                then [Pensez_a_mentionner (take 3 (absents verification_elements))] else []);
          s2 = s1 @ (if partiels verification_elements \<noteq> []
                then [Developpez_davantage (take 2 (partiels verification_elements))] else []);
          s3 = s2 @ (if erreurs_detectees \<noteq> []
                then [Evitez_de_mentionner (take 2 erreurs_detectees)] else [])
      in if s3 = [] then [Excellente_reponse] else s3)"

record resultat_local =
  est_correct :: bool
  score :: rat
  similarite :: rat
  elements_presents :: "string list"
  elements_partiels :: "string list"
  elements_absents :: "string list"
  erreurs_detectees :: "string list"
  suggestions :: "suggestion list"

definition evaluer_reponse_local ::
  "(string \<Rightarrow> string \<Rightarrow> rat) \<Rightarrow> analyzer \<Rightarrow> question_data \<Rightarrow> string \<Rightarrow> resultat_local" where
  "evaluer_reponse_local ratio self q reponse_user =
     (let attendue = get_or [] (reponse_attendue q);
          points = get_or [] (points_obligatoires q);
          erreurs = get_or [] (erreurs_a_eviter q);
          simi = calculer_similarite ratio self reponse_user attendue;
          verification_elements = verifier_presence_elements self reponse_user points;
          erreurs_trouvees = detecter_erreurs reponse_user erreurs;
          score_base = simi * 100;
          score_base =
            (if points \<noteq> [] then
               (let taux_elements =
                      (of_nat (length (presents verification_elements)) +
                       of_nat (length (partiels verification_elements)) * (1 / 2))
                      / of_nat (length points)
                in score_base * (4 / 10) + taux_elements * 60)
             else score_base);
          penalite_erreurs = of_nat (length erreurs_trouvees) * 10;
          score_final = max 0 (score_base - penalite_erreurs)
      in \<lparr>est_correct = (60 \<le> score_final \<and> erreurs_trouvees = [] \<and>
                          length (absents verification_elements) = 0),
          score = py_round score_final 1,
          similarite = py_round (simi * 100) 1,
          elements_presents = presents verification_elements,
          elements_partiels = partiels verification_elements,
          elements_absents = absents verification_elements,
          erreurs_detectees = erreurs_trouvees,
          suggestions = generer_suggestions verification_elements erreurs_trouvees\<rparr>)"

text \<open>
  The prompt is an f-string whose whitespace is collapsed at the end by
  \<open>' '.join(prompt.split())\<close>; the fixed text between the fields is written here with
  each run of whitespace already a single space, which the final collapse makes equal.
\<close>

definition prompt_intro :: string where
  "prompt_intro = '' Tu es un assistant d'' @ [CHR 0x27, CHR 0xE9] @ ''valuation p'' @ [CHR 0xE9] @
     ''dagogique. Ton r'' @ [CHR 0xF4] @ ''le est d'' @ [CHR 0x27, CHR 0xE9] @ ''valuer la r'' @
     [CHR 0xE9] @ ''ponse d'' @ [CHR 0x27] @ ''un '' @ [CHR 0xE9] @ ''tudiant '' @ [CHR 0xE0] @
     '' une question donn'' @ [CHR 0xE9] @ ''e, en te basant sur des crit'' @ [CHR 0xE8] @
     ''res stricts. Voici la question : Titre : ''"

definition prompt_enonce :: string where
  "prompt_enonce = '' '' @ [CHR 0xC9] @ ''nonc'' @ [CHR 0xE9] @ '' : ''"

definition prompt_attendue :: string where
  "prompt_attendue = '' Voici les crit'' @ [CHR 0xE8] @ ''res d'' @ [CHR 0x27, CHR 0xE9] @
     ''valuation : 1. R'' @ [CHR 0xE9] @ ''ponse attendue (mod'' @ [CHR 0xE8] @ ''le) : ''"

definition prompt_points :: string where
  "prompt_points = '' 2. Points obligatoires (doivent '' @ [CHR 0xEA] @ ''tre pr'' @ [CHR 0xE9] @
     ''sents) : ''"

definition prompt_erreurs :: string where
  "prompt_erreurs = '' 3. Erreurs '' @ [CHR 0xE0] @ '' '' @ [CHR 0xE9] @
     ''viter (ne doivent pas '' @ [CHR 0xEA] @ ''tre pr'' @ [CHR 0xE9] @ ''sents) : ''"

definition prompt_reponse :: string where
  "prompt_reponse = '' Voici la r'' @ [CHR 0xE9] @ ''ponse de l'' @ [CHR 0x27, CHR 0xE9] @
     ''tudiant : '' @ [CHR 0x22]"

definition prompt_tache :: string where
  "prompt_tache = [CHR 0x22] @ '' TA T'' @ [CHR 0xC2] @ ''CHE : '' @ [CHR 0xC9] @ ''value la r'' @
     [CHR 0xE9] @ ''ponse de l'' @ [CHR 0x27, CHR 0xE9] @ ''tudiant en fonction des crit'' @
     [CHR 0xE8] @ ''res. Fournis une analyse structur'' @ [CHR 0xE9] @
     ''e au format JSON EXACT. Le JSON doit contenir les cl'' @ [CHR 0xE9] @
     ''s suivantes : - '' @ [CHR 0x22] @ ''score'' @ [CHR 0x22] @ '': Un score num'' @ [CHR 0xE9] @
     ''rique de 0 '' @ [CHR 0xE0] @ '' 100. - '' @ [CHR 0x22] @ ''est_correct'' @ [CHR 0x22] @
     '': Un bool'' @ [CHR 0xE9] @ ''en (true/false) indiquant si la r'' @ [CHR 0xE9] @
     ''ponse est globalement satisfaisante (score >= 60 et pas d'' @ [CHR 0x27] @
     ''erreurs majeures). - '' @ [CHR 0x22] @ ''elements_presents'' @ [CHR 0x22] @
     '': Une liste de strings des points obligatoires que tu as trouv'' @ [CHR 0xE9] @
     ''s dans la r'' @ [CHR 0xE9] @ ''ponse. - '' @ [CHR 0x22] @ ''elements_partiels'' @ [CHR 0x22] @
     '': Une liste de strings des points obligatoires qui sont mentionn'' @ [CHR 0xE9] @
     ''s mais pas assez d'' @ [CHR 0xE9] @ ''velopp'' @ [CHR 0xE9] @ ''s. - '' @ [CHR 0x22] @
     ''elements_absents'' @ [CHR 0x22] @
     '': Une liste de strings des points obligatoires qui manquent. - '' @ [CHR 0x22] @
     ''erreurs_detectees'' @ [CHR 0x22] @ '': Une liste de strings des '' @ [CHR 0x22] @
     ''erreurs '' @ [CHR 0xE0] @ '' '' @ [CHR 0xE9] @ ''viter'' @ [CHR 0x22] @ '' que tu as trouv'' @
     [CHR 0xE9] @ ''es. - '' @ [CHR 0x22] @ ''suggestions'' @ [CHR 0x22] @
     '': Une liste de strings donnant 1 ou 2 conseils cl'' @ [CHR 0xE9] @ ''s '' @ [CHR 0xE0] @
     '' l'' @ [CHR 0x27, CHR 0xE9] @ ''tudiant pour s'' @ [CHR 0x27] @ ''am'' @ [CHR 0xE9] @
     ''liorer, bas'' @ [CHR 0xE9] @ ''s sur les '' @ [CHR 0xE9] @ ''l'' @ [CHR 0xE9] @
     ''ments absents ou les erreurs. Ne renvoie QUE le JSON, sans aucun autre texte avant ou apr'' @
     [CHR 0xE8] @ ''s. ''"

definition construire_prompt_gemini :: "question_data \<Rightarrow> string \<Rightarrow> string" where
  "construire_prompt_gemini q reponse_user =
     py_join '' '' (py_split
       (prompt_intro @ get_or ''N/A'' (titre q) @
        prompt_enonce @ get_or ''N/A'' (enonce q) @
        prompt_attendue @ get_or ''N/A'' (reponse_attendue q) @
        prompt_points @ py_or (py_join '', '' (get_or [] (points_obligatoires q))) ''N/A'' @
        prompt_erreurs @ py_or (py_join '', '' (get_or [] (erreurs_a_eviter q))) ''N/A'' @
        prompt_reponse @ reponse_user @ prompt_tache))"

definition erreur_parsing :: "string \<Rightarrow> exn" where
  \<comment> \<open>the \<open>Exception\<close> raised by the handler of \<open>evaluer_reponse_gemini\<close>\<close>
  "erreur_parsing texte =
     Exn OtherError (''Erreur parsing JSON de Gemini. R'' @ [CHR 0xE9] @ ''ponse: '' @ texte)"

definition defauts_gemini :: "pydict \<Rightarrow> bool \<Rightarrow> pydict" where
  \<comment> \<open>the eight \<open>setdefault\<close> calls, in the order of the source; \<open>correct\<close> is the value of
      \<open>resultats.get('score', 0) >= 60\<close>, computed before the first of them\<close>
  "defauts_gemini resultats correct =
     (let r = setdefault resultats ''est_correct'' (JBool correct);
          r = setdefault r ''similarite'' (JNum 0);
          r = setdefault r ''elements_presents'' (JArr []);
          r = setdefault r ''elements_partiels'' (JArr []);
          r = setdefault r ''elements_absents'' (JArr []);
          r = setdefault r ''erreurs_detectees'' (JArr []);
          r = setdefault r ''suggestions''
                (JArr [JStr (''Analyse effectu'' @ [CHR 0xE9] @ ''e par Gemini.'')]);
          r = setdefault r ''score'' (JNum 0)
      in r)"

text \<open>
  \<open>evaluer_reponse_gemini\<close>. The handler catches \<open>JSONDecodeError\<close>, \<open>AttributeError\<close>
  and \<open>ValueError\<close> and raises \<open>erreur_parsing\<close>. When \<open>response.text\<close> itself raises,
  the handler reads it again and the same exception leaves the function. A value that
  is not a \<open>dict\<close> has no \<open>setdefault\<close> (\<open>AttributeError\<close>); a \<open>TypeError\<close> of the
  comparison is not caught.
\<close>

definition evaluer_reponse_gemini ::
  "(string \<Rightarrow> reply) \<Rightarrow> question_data \<Rightarrow> string \<Rightarrow> exn + (pydict \<times> string)" where
  "evaluer_reponse_gemini model q reponse_user =
     (let prompt = construire_prompt_gemini q reponse_user in
      case model prompt of
        CallRaises e \<Rightarrow> Inl e
      | TextRaises e \<Rightarrow> Inl e
      | Text texte None \<Rightarrow> Inl (erreur_parsing texte)
      | Text texte (Some (JObj kvs)) \<Rightarrow>
          (let resultats = dict_of kvs in
           case py_ge60 (dict_get resultats ''score'' (JNum 0)) of
             Inl e \<Rightarrow> Inl e
           | Inr correct \<Rightarrow> Inr (defauts_gemini resultats correct, prompt))
      | Text texte (Some other) \<Rightarrow> Inl (erreur_parsing texte))"

text \<open>The router returns the dictionary of one of the two paths and a text.\<close>

datatype resultats = Local resultat_local | Gemini pydict

definition mode_local_non_configure :: string where
  "mode_local_non_configure = ''Mode local (Gemini non configur'' @ [CHR 0xE9] @ '').''"

definition mode_local_erreur :: "exn \<Rightarrow> string" where
  "mode_local_erreur e =
     ''Erreur Gemini ('' @ str_exn e @ '') - Mode local utilis'' @ [CHR 0xE9] @ ''.''"

definition evaluer_reponse ::
  "(string \<Rightarrow> string \<Rightarrow> rat) \<Rightarrow> analyzer \<Rightarrow> question_data \<Rightarrow> string \<Rightarrow> resultats \<times> string" where
  "evaluer_reponse ratio self q reponse_user =
     (case gemini_model self of
        Some model \<Rightarrow>
          (case evaluer_reponse_gemini model q reponse_user of
             Inr (res, prompt) \<Rightarrow> (Gemini res, prompt)
           | Inl e \<Rightarrow>
               (Local (evaluer_reponse_local ratio self q reponse_user), mode_local_erreur e))
      | None \<Rightarrow>
          (Local (evaluer_reponse_local ratio self q reponse_user), mode_local_non_configure))"

definition resultat_score :: "resultats \<Rightarrow> json option" where
  \<comment> \<open>\<open>resultats['score']\<close> as the caller reads it\<close>
  "resultat_score res = (case res of Local r \<Rightarrow> Some (JNum (score r)) | Gemini d \<Rightarrow> d ''score'')"

section \<open>BaselineGrader (grader.py)\<close>

text \<open>
  A rubric point is a JSON value: a string, or an object whose \<open>type\<close> is \<open>regex\<close>.
  \<open>search\<close> stands for \<open>re.search(pattern, text, flags=re.I) is not None\<close> of the
  library, which raises \<open>re.error\<close> on a pattern that does not compile.
\<close>

record baseline_grader =
  req :: "json list"
  forb :: "json list"
  expected :: string

fun pattern_type_error :: "json \<Rightarrow> exn" where
  \<comment> \<open>the \<open>TypeError\<close> of \<open>re.search\<close> on a pattern that is not a string\<close>
  "pattern_type_error (JArr xs) = Exn TypeError (''unhashable type: '' @ [CHR 0x27] @ ''list'' @ [CHR 0x27])"
| "pattern_type_error (JObj kvs) = Exn TypeError (''unhashable type: '' @ [CHR 0x27] @ ''dict'' @ [CHR 0x27])"
| "pattern_type_error v = Exn TypeError ''first argument must be string or compiled pattern''"

definition check_point :: "(string \<Rightarrow> string \<Rightarrow> exn + bool) \<Rightarrow> json \<Rightarrow> string \<Rightarrow> exn + bool" where
  "check_point search spec text =
     (case spec of
        JStr s \<Rightarrow> Inr (py_in (py_lower s) (py_lower text))
      | JObj kvs \<Rightarrow>
          if dict_of kvs ''type'' = Some (JStr ''regex'') then
            (case dict_get (dict_of kvs) ''value'' (JStr []) of
               JStr pattern \<Rightarrow> search pattern text
             | other \<Rightarrow> Inl (pattern_type_error other))
          else Inr False
      | other \<Rightarrow> Inr False)"

text \<open>The loop over the required points, and the comprehension over the forbidden ones;
  an exception of \<open>check_point\<close> ends either.\<close>

fun grade_requis ::
  "(string \<Rightarrow> string \<Rightarrow> exn + bool) \<Rightarrow> string \<Rightarrow> json list \<Rightarrow> json list \<times> json list
     \<Rightarrow> exn + (json list \<times> json list)" where
  "grade_requis search text [] (found, missing) = Inr (found, missing)"
| "grade_requis search text (p # ps) (found, missing) =
     (case check_point search p text of
        Inl e \<Rightarrow> Inl e
      | Inr b \<Rightarrow> grade_requis search text ps
                  (if b then (found @ [p], missing) else (found, missing @ [p])))"

fun grade_interdits ::
  "(string \<Rightarrow> string \<Rightarrow> exn + bool) \<Rightarrow> string \<Rightarrow> json list \<Rightarrow> exn + json list" where
  "grade_interdits search text [] = Inr []"
| "grade_interdits search text (p # ps) =
     (case check_point search p text of
        Inl e \<Rightarrow> Inl e
      | Inr b \<Rightarrow>
          (case grade_interdits search text ps of
             Inl e \<Rightarrow> Inl e
           | Inr violated \<Rightarrow> Inr (if b then p # violated else violated)))"

record feedback =
  similarity_score :: rat
  required_found :: "json list"
  required_missing :: "json list"
  forbidden_detected :: "json list"
  final :: rat

text \<open>\<open>grade\<close> returns the score and the feedback dictionary (which the source
  serialises with \<open>json.dumps\<close>).\<close>

definition grade ::
  "(string \<Rightarrow> string \<Rightarrow> rat) \<Rightarrow> (string \<Rightarrow> string \<Rightarrow> exn + bool) \<Rightarrow> baseline_grader \<Rightarrow> string
     \<Rightarrow> exn + (rat \<times> feedback)" where
  "grade ratio search self answer =
     (let text = py_or answer [];
          sim = ratio (py_lower text) (py_lower (expected self));
          base = py_round (sim * 40) 2
      in case grade_requis search text (req self) ([], []) of
           Inl e \<Rightarrow> Inl e
         | Inr (found, missing) \<Rightarrow>
             (let req_score = 10 * of_nat (length found) in
              case grade_interdits search text (forb self) of
                Inl e \<Rightarrow> Inl e
              | Inr violated \<Rightarrow>
                  (let pen = 10 * of_nat (length violated);
                       score = max 0 (min 100 (base + req_score - pen))
                   in Inr (score,
                        \<lparr>similarity_score = base, required_found = found,
                         required_missing = missing, forbidden_detected = violated,
                         final = score\<rparr>))))"

section \<open>Notions of the specification\<close>

text \<open>
  The scoring rule in the words of the specification: \<open>s\<close> the similarity ratio,
  \<open>nf\<close>, \<open>np\<close> and \<open>nv\<close> the numbers of found points, partial points and violations,
  \<open>n\<close> the number of required points.
\<close>

definition spec_base :: "rat \<Rightarrow> nat \<Rightarrow> nat \<Rightarrow> nat \<Rightarrow> rat" where
  "spec_base s nf np n =
     (if 0 < n
      then s * 100 * (4 / 10) + 60 * ((of_nat nf + (1 / 2) * of_nat np) / of_nat n)
      else s * 100)"

definition spec_score :: "rat \<Rightarrow> nat \<Rightarrow> nat \<Rightarrow> nat \<Rightarrow> nat \<Rightarrow> rat" where
  "spec_score s nf np nv n = max 0 (spec_base s nf np n - 10 * of_nat nv)"

text \<open>The class a required point falls in, as the branches of the loop of
  \<open>verifier_presence_elements\<close> decide it.\<close>

datatype classe = Present | Partiel | Absent

definition classer :: "analyzer \<Rightarrow> string \<Rightarrow> string \<Rightarrow> classe" where
  "classer self reponse_user element =
     (if py_in (normaliser_texte element) (normaliser_texte reponse_user) then Present
      else if extraire_mots_cles self element \<noteq> {} \<and>
              of_nat (card (extraire_mots_cles self element)) * (7 / 10 :: rat)
                \<le> of_nat (card (extraire_mots_cles self element \<inter>
                                   extraire_mots_cles self reponse_user))
      then Partiel else Absent)"

text \<open>The kinds of rubric point that \<open>check_point\<close> tells apart.\<close>

datatype point_kind = Literal | Regex | Unknown

definition kind_of :: "json \<Rightarrow> point_kind" where
  "kind_of spec =
     (case spec of
        JStr s \<Rightarrow> Literal
      | JObj kvs \<Rightarrow> if dict_of kvs ''type'' = Some (JStr ''regex'') then Regex else Unknown
      | other \<Rightarrow> Unknown)"

text \<open>The default of each key that \<open>evaluer_reponse_gemini\<close> fills in.\<close>

definition valeur_par_defaut :: "bool \<Rightarrow> string \<Rightarrow> json option" where
  "valeur_par_defaut correct k =
     (if k = ''est_correct'' then Some (JBool correct)
      else if k = ''similarite'' then Some (JNum 0)
      else if k = ''elements_presents'' then Some (JArr [])
      else if k = ''elements_partiels'' then Some (JArr [])
      else if k = ''elements_absents'' then Some (JArr [])
      else if k = ''erreurs_detectees'' then Some (JArr [])
      else if k = ''suggestions'' then
        Some (JArr [JStr (''Analyse effectu'' @ [CHR 0xE9] @ ''e par Gemini.'')])
      else if k = ''score'' then Some (JNum 0)
      else None)"

fun est_nombre :: "json \<Rightarrow> bool" where
  \<comment> \<open>the values that Python compares with an integer: \<open>int\<close>, \<open>float\<close> and \<open>bool\<close>\<close>
  "est_nombre (JNum x) = True"
| "est_nombre (JBool b) = True"
| "est_nombre JNaN = True"
| "est_nombre JInfinity = True"
| "est_nombre JNegInfinity = True"
| "est_nombre v = False"

definition score_in_range :: "resultats \<Rightarrow> bool" where
  \<comment> \<open>the returned score is a number between 0 and 100\<close>
  "score_in_range res =
     (case resultat_score res of Some (JNum x) \<Rightarrow> 0 \<le> x \<and> x \<le> 100 | other \<Rightarrow> False)"

text \<open>The score of \<open>grade\<close> from the numbers of found points and of violations.\<close>

definition grade_score :: "(string \<Rightarrow> string \<Rightarrow> rat) \<Rightarrow> baseline_grader \<Rightarrow> string \<Rightarrow> nat \<Rightarrow> nat \<Rightarrow> rat" where
  "grade_score ratio self answer nf nv =
     max 0 (min 100 (py_round (ratio (py_lower (py_or answer [])) (py_lower (expected self)) * 40) 2
                     + 10 * of_nat nf - 10 * of_nat nv))"

section \<open>Concrete inputs\<close>

text \<open>
  Stand-ins for the two library functions at the concrete inputs evaluated below.
  \<open>ratio_sample\<close> is the ratio of difflib where the two strings are equal (1) or have
  no character in common (0); \<open>search_sample\<close> is \<open>re.search\<close> with \<open>re.I\<close> on the
  pattern \<open>(\<close>, which does not compile, and on patterns of ASCII letters, digits and
  spaces, which match where their lowercase occurs in the lowercased text. They are
  applied to no other input.
\<close>

definition ratio_sample :: "string \<Rightarrow> string \<Rightarrow> rat" where
  "ratio_sample a b = (if a = b then 1 else 0)"

definition search_sample :: "string \<Rightarrow> string \<Rightarrow> exn + bool" where
  "search_sample pattern text =
     (if pattern = ''(''
      then Inl (Exn ReError ''missing ), unterminated subpattern at position 0'')
      else Inr (py_in (py_lower pattern) (py_lower text)))"

definition analyzer_local :: analyzer where
  "analyzer_local = \<lparr>nlp = None, gemini_model = None\<rparr>"

definition modele_constant :: "reply \<Rightarrow> string \<Rightarrow> reply" where
  \<comment> \<open>a model that gives the same reply to every prompt\<close>
  "modele_constant r prompt = r"

definition analyzer_gemini :: "reply \<Rightarrow> analyzer" where
  "analyzer_gemini r = \<lparr>nlp = None, gemini_model = Some (modele_constant r)\<rparr>"

definition question_eau :: question_data where
  "question_eau =
     \<lparr>titre = Some ''Eau'', enonce = Some ''Formule ?'',
      reponse_attendue = Some ''H2O'',
      points_obligatoires = Some [''h2o''],
      erreurs_a_eviter = Some [''co2'']\<rparr>"

definition reponse_eau :: string where
  "reponse_eau = ''H2O.''"


text \<open>Three replies of the model: the texts \<open>{"score": 150}\<close>, \<open>{"score": "abc"}\<close>
  and \<open>{}\<close>, each with the value \<open>json.loads\<close> returns for it.\<close>

definition reply_score_150 :: reply where
  "reply_score_150 =
     Text (''{'' @ [CHR 0x22] @ ''score'' @ [CHR 0x22] @ '': 150}'')
       (Some (JObj [(''score'', JNum 150)]))"

definition reply_score_abc :: reply where
  "reply_score_abc =
     Text (''{'' @ [CHR 0x22] @ ''score'' @ [CHR 0x22] @ '': '' @ [CHR 0x22] @ ''abc'' @ [CHR 0x22] @ ''}'')
       (Some (JObj [(''score'', JStr ''abc'')]))"

definition reply_vide :: reply where
  "reply_vide = Text ''{}'' (Some (JObj []))"

text \<open>A regex point whose pattern does not compile, and a point of unknown kind.\<close>

definition point_regex_invalide :: json where
  "point_regex_invalide = JObj [(''type'', JStr ''regex''), (''value'', JStr ''('')]"

definition point_inconnu :: json where
  "point_inconnu = JObj [(''type'', JStr ''glob''), (''value'', JStr ''h*'')]"

section \<open>Strings: splitting, joining and the normal form\<close>

lemma lower_char_idem: "lower_char (lower_char c) = lower_char c"
  by (auto simp: lower_char_def Let_def of_char_of)

lemma lower_space: "py_isspace c \<Longrightarrow> lower_char c = c"
  by (auto simp: lower_char_def py_isspace_def Let_def)

lemma isspace_space: "py_isspace CHR '' ''"
  by (simp add: py_isspace_def)

lemma split_from_append:
  "\<forall>c \<in> set u. \<not> py_isspace c \<Longrightarrow> split_from w (u @ rest) = split_from (w @ u) rest"
  by (induction u arbitrary: w) auto

lemma split_from_join:
  "\<forall>w \<in> set ws. w \<noteq> [] \<and> (\<forall>c \<in> set w. \<not> py_isspace c) \<Longrightarrow>
   split_from [] (py_join '' '' ws) = ws"
proof (induction ws)
  case Nil
  show ?case by simp
next
  case (Cons w ws)
  have w: "w \<noteq> []" "\<forall>c \<in> set w. \<not> py_isspace c"
    using Cons.prems by auto
  show ?case
  proof (cases ws)
    case Nil
    have "split_from [] (w @ []) = split_from ([] @ w) []"
      using w(2) by (rule split_from_append)
    with w(1) Nil show ?thesis by simp
  next
    case (Cons v vs)
    have "split_from [] (w @ '' '' @ py_join '' '' ws)
          = split_from ([] @ w) ('' '' @ py_join '' '' ws)"
      using w(2) by (rule split_from_append)
    also have "\<dots> = w # split_from [] (py_join '' '' ws)"
      using w(1) by (simp add: isspace_space)
    also have "\<dots> = w # ws"
      using Cons.IH Cons.prems by simp
    finally show ?thesis using Cons by simp
  qed
qed

lemma split_from_words:
  "\<forall>c \<in> set acc. \<not> py_isspace c \<Longrightarrow> w \<in> set (split_from acc s) \<Longrightarrow>
   w \<noteq> [] \<and> (\<forall>c \<in> set w. \<not> py_isspace c \<and> c \<in> set acc \<union> set s)"
proof (induction s arbitrary: acc)
  case Nil
  then show ?case by (auto split: if_splits)
next
  case (Cons d ds)
  show ?case
  proof (cases "py_isspace d")
    case False
    with Cons.prems have "w \<in> set (split_from (acc @ [d]) ds)" by simp
    moreover from False Cons.prems(1) have "\<forall>c \<in> set (acc @ [d]). \<not> py_isspace c" by simp
    ultimately have "w \<noteq> [] \<and> (\<forall>c \<in> set w. \<not> py_isspace c \<and> c \<in> set (acc @ [d]) \<union> set ds)"
      by (rule Cons.IH [rotated])
    then show ?thesis by auto
  next
    case True
    with Cons.prems(2) have "(acc \<noteq> [] \<and> w = acc) \<or> w \<in> set (split_from [] ds)"
      by (auto split: if_splits)
    then show ?thesis
    proof
      assume "acc \<noteq> [] \<and> w = acc"
      with Cons.prems(1) show ?thesis by simp
    next
      assume "w \<in> set (split_from [] ds)"
      with Cons.IH [of "[]"] have "w \<noteq> [] \<and> (\<forall>c \<in> set w. \<not> py_isspace c \<and> c \<in> set [] \<union> set ds)"
        by simp
      then show ?thesis by simp
    qed
  qed
qed

lemma py_split_words:
  "w \<in> set (py_split s) \<Longrightarrow> w \<noteq> [] \<and> (\<forall>c \<in> set w. \<not> py_isspace c \<and> c \<in> set s)"
  using split_from_words [of "[]" w s] by (simp add: py_split_def)

lemma set_py_join: "set (py_join sep ws) \<subseteq> set sep \<union> \<Union> (set ` set ws)"
  by (induction sep ws rule: py_join.induct) auto

lemma py_split_join:
  "\<forall>w \<in> set ws. w \<noteq> [] \<and> (\<forall>c \<in> set w. \<not> py_isspace c) \<Longrightarrow>
   py_split (py_join '' '' ws) = ws"
  by (simp add: py_split_def split_from_join)

lemma normaliser_chars:
  assumes "c \<in> set (normaliser_texte t)"
  shows "c = CHR '' '' \<or> (re_word c \<and> lower_char c = c)"
proof -
  from assms set_py_join [of "'' ''" "py_split (re_sub_non_word (py_lower t))"]
  have "c = CHR '' '' \<or> (\<exists>w \<in> set (py_split (re_sub_non_word (py_lower t))). c \<in> set w)"
    by (auto simp: normaliser_texte_def)
  then show ?thesis
  proof
    assume "c = CHR '' ''" then show ?thesis by simp
  next
    assume "\<exists>w \<in> set (py_split (re_sub_non_word (py_lower t))). c \<in> set w"
    then obtain w where w: "w \<in> set (py_split (re_sub_non_word (py_lower t)))" "c \<in> set w" by blast
    from py_split_words [OF w(1)] w(2)
    have c: "\<not> py_isspace c" "c \<in> set (re_sub_non_word (py_lower t))" by auto
    from c(2) obtain d where d: "d \<in> set t"
      "c = (if re_word (lower_char d) \<or> py_isspace (lower_char d) then lower_char d else CHR '' '')"
      by (auto simp: re_sub_non_word_def py_lower_def)
    with c(1) have "re_word (lower_char d)" "c = lower_char d"
      by (auto simp: isspace_space split: if_splits)
    then show ?thesis by (simp add: lower_char_idem)
  qed
qed

lemma py_in_iff_sublist: "py_in sub s \<longleftrightarrow> sublist sub s"
  by (induction s) (auto simp: sublist_Cons_right)

section \<open>Rounding\<close>

lemma round_half_even_of_int: "round_half_even (of_int k) = k"
  by (simp add: round_half_even_def)

lemma round_half_even_mono: "x \<le> y \<Longrightarrow> round_half_even x \<le> round_half_even y"
proof -
  assume xy: "x \<le> y"
  then have f: "\<lfloor>x\<rfloor> \<le> \<lfloor>y\<rfloor>" by (rule floor_mono)
  show ?thesis
  proof (cases "\<lfloor>x\<rfloor> = \<lfloor>y\<rfloor>")
    case True
    with xy have "x - of_int \<lfloor>x\<rfloor> \<le> y - of_int \<lfloor>y\<rfloor>" by simp
    with True show ?thesis
      by (auto simp: round_half_even_def Let_def)
  next
    case False
    with f have "\<lfloor>x\<rfloor> + 1 \<le> \<lfloor>y\<rfloor>" by simp
    moreover have "round_half_even x \<le> \<lfloor>x\<rfloor> + 1" by (simp add: round_half_even_def Let_def)
    moreover have "\<lfloor>y\<rfloor> \<le> round_half_even y" by (simp add: round_half_even_def Let_def)
    ultimately show ?thesis by linarith
  qed
qed

lemma py_round_mono: "x \<le> y \<Longrightarrow> py_round x n \<le> py_round y n"
  unfolding py_round_def
  by (intro divide_right_mono, simp, intro round_half_even_mono mult_right_mono) simp_all

lemma py_round_of_int: "py_round (of_int k) n = of_int k"
proof -
  have "(of_int k :: rat) * 10 ^ n = of_int (k * 10 ^ n)" by simp
  then have "round_half_even (of_int k * 10 ^ n) = k * 10 ^ n"
    by (simp only: round_half_even_of_int)
  then show ?thesis by (simp add: py_round_def)
qed

lemma py_round_range: "0 \<le> x \<Longrightarrow> x \<le> 100 \<Longrightarrow> 0 \<le> py_round x n \<and> py_round x n \<le> 100"
  using py_round_mono [of 0 x n] py_round_mono [of x 100 n]
    py_round_of_int [of 0 n] py_round_of_int [of 100 n] by simp

section \<open>The local pipeline: classification and score\<close>

lemma verifier_boucle_filter:
  "verifier_boucle self (normaliser_texte a) (extraire_mots_cles self a) xs res =
     \<lparr>presents = presents res @ filter (\<lambda>e. classer self a e = Present) xs,
      absents = absents res @ filter (\<lambda>e. classer self a e = Absent) xs,
      partiels = partiels res @ filter (\<lambda>e. classer self a e = Partiel) xs\<rparr>"
proof (induction xs arbitrary: res)
  case Nil
  show ?case by simp
next
  case (Cons x xs)
  show ?case
    by (cases "classer self a x") (auto simp: Cons.IH classer_def Let_def split: if_splits)
qed

lemma verifier_presence_elements_filter:
  "verifier_presence_elements self a xs =
     \<lparr>presents = filter (\<lambda>e. classer self a e = Present) xs,
      absents = filter (\<lambda>e. classer self a e = Absent) xs,
      partiels = filter (\<lambda>e. classer self a e = Partiel) xs\<rparr>"
  by (simp add: verifier_presence_elements_def verifier_boucle_filter)

lemma detecter_boucle_filter:
  "detecter_boucle rn xs acc = acc @ filter (\<lambda>e. py_in (normaliser_texte e) rn) xs"
  by (induction xs arbitrary: acc) simp_all

lemma detecter_erreurs_filter:
  "detecter_erreurs a xs = filter (\<lambda>e. py_in (normaliser_texte e) (normaliser_texte a)) xs"
  by (simp add: detecter_erreurs_def detecter_boucle_filter)

lemma mset_three_classes:
  "mset (filter (\<lambda>e. f e = Present) xs) + mset (filter (\<lambda>e. f e = Partiel) xs)
     + mset (filter (\<lambda>e. f e = Absent) xs) = mset xs"
proof (induction xs)
  case Nil
  show ?case by simp
next
  case (Cons x xs)
  then show ?case by (cases "f x") simp_all
qed

lemma length_three_classes:
  "length (filter (\<lambda>e. f e = Present) xs) + length (filter (\<lambda>e. f e = Partiel) xs)
     + length (filter (\<lambda>e. f e = Absent) xs) = length xs"
proof (induction xs)
  case Nil
  show ?case by simp
next
  case (Cons x xs)
  then show ?case by (cases "f x") simp_all
qed

lemma evaluer_reponse_local_fields:
  "elements_presents (evaluer_reponse_local ratio self q a)
     = presents (verifier_presence_elements self a (get_or [] (points_obligatoires q)))"
  "elements_partiels (evaluer_reponse_local ratio self q a)
     = partiels (verifier_presence_elements self a (get_or [] (points_obligatoires q)))"
  "elements_absents (evaluer_reponse_local ratio self q a)
     = absents (verifier_presence_elements self a (get_or [] (points_obligatoires q)))"
  "erreurs_detectees (evaluer_reponse_local ratio self q a)
     = detecter_erreurs a (get_or [] (erreurs_a_eviter q))"
  by (simp_all add: evaluer_reponse_local_def Let_def)

lemma score_final_local:
  "score (evaluer_reponse_local ratio self q a) =
     py_round (spec_score (calculer_similarite ratio self a (get_or [] (reponse_attendue q)))
        (length (presents (verifier_presence_elements self a (get_or [] (points_obligatoires q)))))
        (length (partiels (verifier_presence_elements self a (get_or [] (points_obligatoires q)))))
        (length (detecter_erreurs a (get_or [] (erreurs_a_eviter q))))
        (length (get_or [] (points_obligatoires q)))) 1"
  by (simp add: evaluer_reponse_local_def Let_def spec_score_def spec_base_def algebra_simps)


lemma mset_filter_le: "mset (filter P xs) \<subseteq># mset xs"
  by simp

lemma classes_disjoint:
  "set (filter (\<lambda>e. f e = Present) xs) \<inter> set (filter (\<lambda>e. f e = Partiel) xs) = {}"
  "set (filter (\<lambda>e. f e = Present) xs) \<inter> set (filter (\<lambda>e. f e = Absent) xs) = {}"
  "set (filter (\<lambda>e. f e = Partiel) xs) \<inter> set (filter (\<lambda>e. f e = Absent) xs) = {}"
  by auto

lemma evaluer_reponse_local_eau:
  "evaluer_reponse_local ratio_sample analyzer_local question_eau reponse_eau =
     \<lparr>est_correct = True, score = 100, similarite = 100,
      elements_presents = [''h2o''], elements_partiels = [],
      elements_absents = [], erreurs_detectees = [],
      suggestions = [Excellente_reponse]\<rparr>"
  by code_simp

section \<open>The remote path and the router\<close>

lemma setdefault_apply:
  "setdefault d k v x =
     (case d x of Some y \<Rightarrow> Some y | None \<Rightarrow> if x = k then Some v else None)"
  by (auto simp: setdefault_def split: option.split)

lemma defauts_gemini_apply:
  "defauts_gemini d c k = (case d k of Some v \<Rightarrow> Some v | None \<Rightarrow> valeur_par_defaut c k)"
proof (cases "d k")
  case None
  then show ?thesis
    by (simp add: defauts_gemini_def Let_def setdefault_apply valeur_par_defaut_def)
next
  case (Some v)
  then show ?thesis
    by (simp add: defauts_gemini_def Let_def setdefault_apply)
qed

lemma evaluer_reponse_gemini_objet:
  "model (construire_prompt_gemini q a) = Text t (Some (JObj kvs)) \<Longrightarrow>
   evaluer_reponse_gemini model q a =
     (case py_ge60 (dict_get (dict_of kvs) ''score'' (JNum 0)) of
        Inl e \<Rightarrow> Inl e
      | Inr c \<Rightarrow> Inr (defauts_gemini (dict_of kvs) c, construire_prompt_gemini q a))"
  by (simp add: evaluer_reponse_gemini_def Let_def)

lemma py_ge60_nombre: "est_nombre v \<Longrightarrow> \<exists>c. py_ge60 v = Inr c"
  by (cases v) auto

lemma py_ge60_autre: "\<not> est_nombre v \<Longrightarrow> \<exists>msg. py_ge60 v = Inl (Exn TypeError msg)"
  by (cases v) simp_all

lemma sublist_local_non_configure: "sublist ''local'' mode_local_non_configure"
proof -
  have "sublist ''local'' (''Mode '' @ ''local'' @ ('' (Gemini non configur'' @ [CHR 0xE9] @ '').''))"
    by (rule sublist_appendI)
  then show ?thesis by (simp add: mode_local_non_configure_def)
qed

lemma sublist_local_erreur: "sublist ''local'' (mode_local_erreur e)"
proof -
  have "sublist ''local''
          ((''Erreur Gemini ('' @ str_exn e @ '') - Mode '') @ ''local'' @ ('' utilis'' @ [CHR 0xE9] @ ''.''))"
    by (rule sublist_appendI)
  then show ?thesis by (simp add: mode_local_erreur_def)
qed

section \<open>The baseline grader\<close>

lemma py_or_Nil: "py_or a [] = a"
  by (simp add: py_or_def)

lemma grade_interdits_Inr:
  "grade_interdits search t ps = Inr v \<Longrightarrow>
   v = filter (\<lambda>p. check_point search p t = Inr True) ps
   \<and> (\<forall>p \<in> set ps. \<exists>b. check_point search p t = Inr b)"
proof (induction ps arbitrary: v)
  case Nil
  then show ?case by simp
next
  case (Cons p ps)
  from Cons.prems obtain b w where b: "check_point search p t = Inr b"
    and w: "grade_interdits search t ps = Inr w" and v: "v = (if b then p # w else w)"
    by (auto split: sum.splits)
  from Cons.IH [OF w] b v show ?case by auto
qed

lemma grade_interdits_total:
  "\<forall>p \<in> set ps. \<exists>b. check_point search p t = Inr b \<Longrightarrow>
   grade_interdits search t ps = Inr (filter (\<lambda>p. check_point search p t = Inr True) ps)"
  by (induction ps) auto

lemma grade_requis_Inl:
  "check_point search p t = Inl e \<Longrightarrow> p \<in> set ps \<Longrightarrow>
   \<exists>e'. grade_requis search t ps acc = Inl e'"
proof (induction ps arbitrary: acc)
  case Nil
  then show ?case by simp
next
  case (Cons x xs)
  obtain f m where acc: "acc = (f, m)" by (cases acc)
  show ?case
  proof (cases "check_point search x t")
    case (Inl e')
    then show ?thesis by (simp add: acc)
  next
    case (Inr b)
    with Cons.prems have "p \<in> set xs" by auto
    from Cons.IH [OF Cons.prems(1) this] Inr show ?thesis by (simp add: acc)
  qed
qed

lemma grade_Inr:
  "grade ratio search g answer = Inr (sc, fb) \<Longrightarrow>
   \<exists>fnd mis vio. grade_requis search (py_or answer []) (req g) ([], []) = Inr (fnd, mis)
     \<and> grade_interdits search (py_or answer []) (forb g) = Inr vio
     \<and> sc = grade_score ratio g answer (length fnd) (length vio)"
  by (auto simp: grade_def grade_score_def Let_def split: sum.splits prod.splits)

lemma grade_Inr_intro:
  "grade_requis search (py_or answer []) (req g) ([], []) = Inr (fnd, mis) \<Longrightarrow>
   grade_interdits search (py_or answer []) (forb g) = Inr vio \<Longrightarrow>
   \<exists>fb. grade ratio search g answer = Inr (grade_score ratio g answer (length fnd) (length vio), fb)"
  by (simp add: grade_def grade_score_def Let_def)

lemma grade_score_antimono:
  "grade_score ratio g answer nf (Suc nv) \<le> grade_score ratio g answer nf nv"
  by (simp add: grade_score_def)

lemma grade_score_range:
  "0 \<le> grade_score ratio g answer nf nv \<and> grade_score ratio g answer nf nv \<le> 100"
  by (simp add: grade_score_def)

lemma spec_score_antimono: "spec_score s nf np (Suc nv) n \<le> spec_score s nf np nv n"
  by (simp add: spec_score_def)

lemma spec_score_range:
  assumes "s \<le> 1" "nf + np \<le> n"
  shows "0 \<le> spec_score s nf np nv n \<and> spec_score s nf np nv n \<le> 100"
proof -
  have base: "spec_base s nf np n \<le> 100"
  proof (cases "0 < n")
    case False
    with assms(1) show ?thesis by (simp add: spec_base_def)
  next
    case True
    have "(of_nat nf + (1 / 2) * of_nat np :: rat) \<le> of_nat nf + of_nat np" by simp
    also have "\<dots> \<le> of_nat n" using assms(2) by (metis of_nat_add of_nat_le_iff)
    finally have "(of_nat nf + (1 / 2) * of_nat np) / (of_nat n :: rat) \<le> 1"
      using True by (simp add: divide_le_eq)
    then have "60 * ((of_nat nf + (1 / 2) * of_nat np) / (of_nat n :: rat)) \<le> 60 * 1"
      by (intro mult_left_mono) simp_all
    moreover from assms(1) have "s * 100 * (4 / 10) \<le> 40" by simp
    ultimately show ?thesis using True by (simp add: spec_base_def)
  qed
  have "(0::rat) \<le> 10 * of_nat nv" by simp
  with base show ?thesis by (simp add: spec_score_def)
qed

lemma grade_raises:
  assumes "check_point search spec (py_or answer []) = Inl e"
    and "spec \<in> set (req g) \<union> set (forb g)"
  shows "\<exists>e'. grade ratio search g answer = Inl e'"
proof (cases "grade ratio search g answer")
  case (Inl e')
  then show ?thesis by blast
next
  case (Inr res)
  obtain sc fb where "res = (sc, fb)" by (cases res)
  with Inr grade_Inr [of ratio search g answer sc fb]
  obtain fnd mis vio where
      r: "grade_requis search (py_or answer []) (req g) ([], []) = Inr (fnd, mis)"
    and i: "grade_interdits search (py_or answer []) (forb g) = Inr vio"
    by auto
  from assms(2) show ?thesis
  proof
    assume "spec \<in> set (req g)"
    from grade_requis_Inl [OF assms(1) this, of "([], [])"] r show ?thesis by simp
  next
    assume "spec \<in> set (forb g)"
    with grade_interdits_Inr [OF i] assms(1) show ?thesis by auto
  qed
qed

section \<open>The text normalizer\<close>

text \<open>
  Claim C7. \<open>normaliser_texte\<close> is a function of its argument alone, defined on every
  string, and normalising a second time changes nothing:
  \<open>normaliser_texte (normaliser_texte x) = normaliser_texte x\<close> for every string \<open>x\<close>.
\<close>

theorem normaliser_texte_idempotent:
  "normaliser_texte (normaliser_texte x) = normaliser_texte x"
proof -
  define ws where "ws = py_split (re_sub_non_word (py_lower x))"
  have n: "normaliser_texte x = py_join '' '' ws"
    by (simp add: normaliser_texte_def ws_def)
  have stable: "\<forall>c \<in> set (normaliser_texte x). lower_char c = c \<and> (re_word c \<or> py_isspace c)"
  proof
    fix c assume "c \<in> set (normaliser_texte x)"
    then have "c = CHR '' '' \<or> (re_word c \<and> lower_char c = c)"
      by (rule normaliser_chars)
    then show "lower_char c = c \<and> (re_word c \<or> py_isspace c)"
      using isspace_space lower_space [of "CHR '' ''"] by auto
  qed
  have low: "py_lower (normaliser_texte x) = normaliser_texte x"
    unfolding py_lower_def using stable by (simp add: map_idI)
  have sub: "re_sub_non_word (normaliser_texte x) = normaliser_texte x"
    unfolding re_sub_non_word_def using stable by (simp add: map_idI)
  have spl: "py_split (py_join '' '' ws) = ws"
    unfolding ws_def using py_split_words by (intro py_split_join) blast
  have "normaliser_texte (normaliser_texte x)
        = py_join '' '' (py_split (re_sub_non_word (py_lower (normaliser_texte x))))"
    by (rule normaliser_texte_def)
  also have "\<dots> = py_join '' '' (py_split (normaliser_texte x))"
    by (simp only: low sub)
  also have "\<dots> = py_join '' '' ws"
    by (simp only: n spl)
  finally show ?thesis by (simp only: n)
qed

theorem normaliser_texte_idempotent_witness:
  "normaliser_texte ''  Bonjour,  le MONDE ! '' = ''bonjour le monde'' \<and>
   normaliser_texte ''bonjour le monde'' = ''bonjour le monde''"
proof -
  have v: "normaliser_texte ''  Bonjour,  le MONDE ! '' = ''bonjour le monde''"
    by code_simp
  with normaliser_texte_idempotent [of "''  Bonjour,  le MONDE ! ''"] show ?thesis
    by simp
qed

section \<open>Claims about the local pipeline\<close>




text \<open>
  Claim C2. For every rubric and answer, the lists of found, partial and missing points
  returned by \<open>evaluer_reponse_local\<close> hold every required point exactly once between
  them (as multisets they add up to the required points, no point is in two of them,
  and they hold no point twice when the rubric does not), and every returned violation
  is one of the rubric's forbidden points.
\<close>

theorem evaluer_reponse_local_partition:
  fixes ratio self q a
  defines "r \<equiv> evaluer_reponse_local ratio self q a"
  shows "mset (elements_presents r) + mset (elements_partiels r) + mset (elements_absents r)
           = mset (get_or [] (points_obligatoires q))
       \<and> set (elements_presents r) \<inter> set (elements_partiels r) = {}
       \<and> set (elements_presents r) \<inter> set (elements_absents r) = {}
       \<and> set (elements_partiels r) \<inter> set (elements_absents r) = {}
       \<and> set (erreurs_detectees r) \<subseteq> set (get_or [] (erreurs_a_eviter q))
       \<and> mset (erreurs_detectees r) \<subseteq># mset (get_or [] (erreurs_a_eviter q))
       \<and> (distinct (get_or [] (points_obligatoires q))
            \<longrightarrow> distinct (elements_presents r @ elements_partiels r @ elements_absents r))"
proof -
  let ?pts = "get_or [] (points_obligatoires q)"
  have f: "elements_presents r = filter (\<lambda>e. classer self a e = Present) ?pts"
    and p: "elements_partiels r = filter (\<lambda>e. classer self a e = Partiel) ?pts"
    and m: "elements_absents r = filter (\<lambda>e. classer self a e = Absent) ?pts"
    and v: "erreurs_detectees r
              = filter (\<lambda>e. py_in (normaliser_texte e) (normaliser_texte a))
                  (get_or [] (erreurs_a_eviter q))"
    unfolding r_def
    by (simp_all add: evaluer_reponse_local_fields verifier_presence_elements_filter
        detecter_erreurs_filter)
  have "mset (elements_presents r @ elements_partiels r @ elements_absents r) = mset ?pts"
    unfolding f p m using mset_three_classes [of "classer self a" ?pts]
    by (simp add: ac_simps)
  then have d: "distinct ?pts
      \<longrightarrow> distinct (elements_presents r @ elements_partiels r @ elements_absents r)"
    using mset_eq_imp_distinct_iff by blast
  have "mset (elements_presents r) + mset (elements_partiels r) + mset (elements_absents r)
           = mset ?pts
       \<and> set (elements_presents r) \<inter> set (elements_partiels r) = {}
       \<and> set (elements_presents r) \<inter> set (elements_absents r) = {}
       \<and> set (elements_partiels r) \<inter> set (elements_absents r) = {}
       \<and> set (erreurs_detectees r) \<subseteq> set (get_or [] (erreurs_a_eviter q))
       \<and> mset (erreurs_detectees r) \<subseteq># mset (get_or [] (erreurs_a_eviter q))"
    unfolding f p m v
    by (intro conjI mset_three_classes classes_disjoint filter_is_subset mset_filter_le)
  with d show ?thesis by blast
qed

theorem evaluer_reponse_local_partition_witness:
  "mset [''h2o''] + mset [] + mset []
     = mset (get_or [] (points_obligatoires question_eau)) \<and>
   distinct (get_or [] (points_obligatoires question_eau)) \<and>
   distinct ([''h2o''] @ [] @ []) \<and>
   elements_presents (evaluer_reponse_local ratio_sample analyzer_local question_eau reponse_eau)
     = [''h2o'']"
proof -
  have d: "distinct (get_or [] (points_obligatoires question_eau))"
    and m: "mset [''h2o''] + mset [] + mset [] = mset (get_or [] (points_obligatoires question_eau))"
    by (simp_all add: question_eau_def get_or_def)
  from evaluer_reponse_local_partition [where ratio = ratio_sample and self = analyzer_local
      and q = question_eau and a = reponse_eau] d
  have "distinct
     (elements_presents (evaluer_reponse_local ratio_sample analyzer_local question_eau reponse_eau)
      @ elements_partiels (evaluer_reponse_local ratio_sample analyzer_local question_eau reponse_eau)
      @ elements_absents (evaluer_reponse_local ratio_sample analyzer_local question_eau reponse_eau))"
    by blast
  then have "distinct ([''h2o''] @ [] @ [])"
    by (simp only: evaluer_reponse_local_eau resultat_local.simps)
  with d m show ?thesis
    by (simp add: evaluer_reponse_local_eau)
qed

section \<open>Claims about rubric points\<close>

text \<open>
  Claim C5, as the code has it. For every answer and every rubric point of unknown kind
  (neither a string nor an object whose \<open>type\<close> is \<open>regex\<close>), \<open>check_point\<close> returns
  \<open>False\<close> and raises nothing. For a regex point with a string pattern it returns what
  the library's search returns and raises what it raises; an exception of
  \<open>check_point\<close> on a required or forbidden point leaves \<open>grade\<close> as an exception.
\<close>

theorem check_point_malformed:
  "(kind_of spec = Unknown \<longrightarrow> check_point search spec tx = Inr False)
   \<and> (kind_of spec = Regex \<and> spec = JObj kvs
        \<and> dict_get (dict_of kvs) ''value'' (JStr []) = JStr pattern
      \<longrightarrow> check_point search spec tx = search pattern tx)
   \<and> (check_point search spec (py_or answer []) = Inl e
        \<and> spec \<in> set (req g) \<union> set (forb g)
      \<longrightarrow> (\<exists>e'. grade ratio search g answer = Inl e'))"
proof (intro conjI impI)
  assume "kind_of spec = Unknown"
  then show "check_point search spec tx = Inr False"
    by (cases spec) (auto simp: kind_of_def check_point_def split: if_splits)
next
  assume "kind_of spec = Regex \<and> spec = JObj kvs
        \<and> dict_get (dict_of kvs) ''value'' (JStr []) = JStr pattern"
  then show "check_point search spec tx = search pattern tx"
    by (auto simp: kind_of_def check_point_def split: if_splits)
next
  assume "check_point search spec (py_or answer []) = Inl e
        \<and> spec \<in> set (req g) \<union> set (forb g)"
  then show "\<exists>e'. grade ratio search g answer = Inl e'"
    using grade_raises by blast
qed

theorem check_point_malformed_witness:
  "check_point search_sample point_inconnu ''h2o'' = Inr False
   \<and> check_point search_sample point_regex_invalide ''h2o'' = search_sample ''('' ''h2o''
   \<and> (\<exists>e'. grade ratio_sample search_sample
               \<lparr>req = [point_regex_invalide], forb = [], expected = ''H2O''\<rparr> ''h2o'' = Inl e')"
proof -
  have h1: "kind_of point_inconnu = Unknown"
    by (simp add: kind_of_def point_inconnu_def dict_of_def)
  have h2: "kind_of point_regex_invalide = Regex
      \<and> point_regex_invalide = JObj [(''type'', JStr ''regex''), (''value'', JStr ''('')]
      \<and> dict_get (dict_of [(''type'', JStr ''regex''), (''value'', JStr ''('')]) ''value'' (JStr [])
          = JStr ''(''"
    by (simp add: kind_of_def point_regex_invalide_def dict_of_def dict_get_def)
  have h3: "check_point search_sample point_regex_invalide (py_or ''h2o'' [])
              = Inl (Exn ReError ''missing ), unterminated subpattern at position 0'')
      \<and> point_regex_invalide
          \<in> set (req \<lparr>req = [point_regex_invalide], forb = [], expected = ''H2O''\<rparr>)
            \<union> set (forb \<lparr>req = [point_regex_invalide], forb = [], expected = ''H2O''\<rparr>)"
    by (simp add: check_point_def point_regex_invalide_def dict_of_def dict_get_def
        search_sample_def)
  from check_point_malformed
    [where spec = point_inconnu and search = search_sample and tx = "''h2o''"]
    h1
  have c1: "check_point search_sample point_inconnu ''h2o'' = Inr False" by blast
  from check_point_malformed
    [where spec = point_regex_invalide and search = search_sample and tx = "''h2o''"
        and kvs = "[(''type'', JStr ''regex''), (''value'', JStr ''('')]" and pattern = "''(''"
        and answer = "''h2o''"
        and e = "Exn ReError ''missing ), unterminated subpattern at position 0''"
        and g = "\<lparr>req = [point_regex_invalide], forb = [], expected = ''H2O''\<rparr>"
        and ratio = ratio_sample]
    h2 h3
  have c2: "check_point search_sample point_regex_invalide ''h2o'' = search_sample ''('' ''h2o''"
    and c3: "\<exists>e'. grade ratio_sample search_sample
               \<lparr>req = [point_regex_invalide], forb = [], expected = ''H2O''\<rparr> ''h2o'' = Inl e'"
    by blast+
  from c1 c2 c3 show ?thesis by blast
qed

text \<open>
  The claim as stated fails for a regex point whose pattern does not compile: the
  \<open>re.error\<close> of the search leaves \<open>check_point\<close>.
\<close>

theorem check_point_malformed_counterexample:
  "check_point search_sample point_regex_invalide ''h2o''
     = Inl (Exn ReError ''missing ), unterminated subpattern at position 0'')"
  by (simp add: check_point_def point_regex_invalide_def dict_of_def dict_get_def
      search_sample_def)

text \<open>
  Claim C9, as the code has it. In \<open>ReponseAnalyzer\<close> a rubric point is judged present
  (listed as found, or as a violation) exactly when its normal form occurs as a
  contiguous block in the normal form of the answer, \<open>normaliser_texte\<close> being the
  normalisation (lowercase, every character that is neither a word character nor a
  space replaced by a space, whitespace collapsed and trimmed). In \<open>BaselineGrader\<close> a
  string point is judged present exactly when its lowercase occurs in the lowercase of
  the raw answer: punctuation and whitespace are compared as they are.
\<close>

theorem literal_point_presence:
  "(p \<in> set (presents (verifier_presence_elements self a pts))
      \<longleftrightarrow> p \<in> set pts \<and> sublist (normaliser_texte p) (normaliser_texte a))
   \<and> (p \<in> set (detecter_erreurs a errs)
      \<longleftrightarrow> p \<in> set errs \<and> sublist (normaliser_texte p) (normaliser_texte a))
   \<and> check_point search (JStr s) tx = Inr (sublist (py_lower s) (py_lower tx))"
  by (auto simp: verifier_presence_elements_filter detecter_erreurs_filter classer_def
      check_point_def py_in_iff_sublist)

theorem literal_point_presence_witness:
  "''h2o'' \<in> set (presents (verifier_presence_elements analyzer_local reponse_eau [''h2o'']))
   \<and> sublist (normaliser_texte ''h2o'') (normaliser_texte reponse_eau)"
proof -
  have "py_in (normaliser_texte ''h2o'') (normaliser_texte reponse_eau)"
    by code_simp
  then have "sublist (normaliser_texte ''h2o'') (normaliser_texte reponse_eau)"
    by (simp add: py_in_iff_sublist)
  then show ?thesis
    using literal_point_presence [of "''h2o''" analyzer_local reponse_eau "[''h2o'']"]
    by simp
qed

text \<open>
  The claim as stated fails for \<open>BaselineGrader\<close>: the normal form of the point \<open>a.\<close>
  is \<open>a\<close>, which occurs in the normal form of the answer \<open>a\<close>, and \<open>check_point\<close>
  judges the point absent.
\<close>

theorem literal_point_presence_counterexample:
  "sublist (normaliser_texte ''a.'') (normaliser_texte ''a'')
   \<and> check_point search_sample (JStr ''a.'') ''a'' = Inr False"
proof -
  have "py_in (normaliser_texte ''a.'') (normaliser_texte ''a'')"
    by code_simp
  moreover have "check_point search_sample (JStr ''a.'') ''a'' = Inr False"
    by code_simp
  ultimately show ?thesis by (simp add: py_in_iff_sublist)
qed

section \<open>Claims about the score\<close>

text \<open>
  Claim C8. Adding to the rubric one forbidden point that the answer violates, anywhere
  in the list and with everything else unchanged, never increases the score: in
  \<open>evaluer_reponse_local\<close> the new point is violated when its normal form occurs in
  the normalized answer; in \<open>BaselineGrader.grade\<close> it is violated when \<open>check_point\<close>
  returns \<open>True\<close> for it, and grading the longer rubric still returns a score.
\<close>

theorem violated_point_never_increases_score:
  "(sublist (normaliser_texte p) (normaliser_texte a)
      \<and> get_or [] (erreurs_a_eviter q) = xs @ ys
    \<longrightarrow> score (evaluer_reponse_local ratio self (q\<lparr>erreurs_a_eviter := Some (xs @ p # ys)\<rparr>) a)
          \<le> score (evaluer_reponse_local ratio self q a))
   \<and> (check_point search spec (py_or answer []) = Inr True
      \<and> forb g = us @ vs
      \<and> grade ratio search g answer = Inr (sc, fb)
    \<longrightarrow> (\<exists>sc' fb'. grade ratio search (g\<lparr>forb := us @ spec # vs\<rparr>) answer = Inr (sc', fb')
                    \<and> sc' \<le> sc))"
proof (intro conjI impI)
  assume h: "sublist (normaliser_texte p) (normaliser_texte a)
      \<and> get_or [] (erreurs_a_eviter q) = xs @ ys"
  let ?q' = "q\<lparr>erreurs_a_eviter := Some (xs @ p # ys)\<rparr>"
  from h have "length (detecter_erreurs a (get_or [] (erreurs_a_eviter ?q')))
               = Suc (length (detecter_erreurs a (get_or [] (erreurs_a_eviter q))))"
    by (simp add: detecter_erreurs_filter get_or_def py_in_iff_sublist)
  moreover have "reponse_attendue ?q' = reponse_attendue q"
    "points_obligatoires ?q' = points_obligatoires q"
    by simp_all
  ultimately show "score (evaluer_reponse_local ratio self ?q' a)
                   \<le> score (evaluer_reponse_local ratio self q a)"
    by (simp only: score_final_local) (intro py_round_mono spec_score_antimono)
next
  assume h: "check_point search spec (py_or answer []) = Inr True
      \<and> forb g = us @ vs
      \<and> grade ratio search g answer = Inr (sc, fb)"
  let ?t = "py_or answer []"
  let ?g' = "g\<lparr>forb := us @ spec # vs\<rparr>"
  let ?viol = "\<lambda>p. check_point search p ?t = Inr True"
  from h grade_Inr [of ratio search g answer sc fb]
  obtain fnd mis vio where
      r: "grade_requis search ?t (req g) ([], []) = Inr (fnd, mis)"
    and i: "grade_interdits search ?t (us @ vs) = Inr vio"
    and sc: "sc = grade_score ratio g answer (length fnd) (length vio)"
    by auto
  from grade_interdits_Inr [OF i]
  have vio: "vio = filter ?viol (us @ vs)"
    and ok: "\<forall>p \<in> set (us @ vs). \<exists>b. check_point search p ?t = Inr b"
    by simp_all
  from ok h have "\<forall>p \<in> set (us @ spec # vs). \<exists>b. check_point search p ?t = Inr b"
    by auto
  then have "grade_interdits search ?t (us @ spec # vs) = Inr (filter ?viol (us @ spec # vs))"
    by (rule grade_interdits_total)
  then have i': "grade_interdits search ?t (forb ?g') = Inr (filter ?viol (us @ spec # vs))"
    by simp
  from r have r': "grade_requis search ?t (req ?g') ([], []) = Inr (fnd, mis)"
    by simp
  from grade_Inr_intro [OF r' i', of ratio]
  obtain fb' where g': "grade ratio search ?g' answer
      = Inr (grade_score ratio ?g' answer (length fnd) (length (filter ?viol (us @ spec # vs))), fb')"
    by blast
  have len: "length (filter ?viol (us @ spec # vs)) = Suc (length vio)"
    using h by (simp add: vio)
  have "grade_score ratio ?g' answer (length fnd) (Suc (length vio))
        = grade_score ratio g answer (length fnd) (Suc (length vio))"
    by (simp add: grade_score_def)
  also have "\<dots> \<le> sc"
    unfolding sc by (rule grade_score_antimono)
  finally show "\<exists>sc' fb'. grade ratio search ?g' answer = Inr (sc', fb') \<and> sc' \<le> sc"
    using g' len by auto
qed

theorem violated_point_never_increases_score_witness:
  "score (evaluer_reponse_local ratio_sample analyzer_local
            (question_eau\<lparr>erreurs_a_eviter := Some ([''co2''] @ ''h2'' # [])\<rparr>) reponse_eau)
     \<le> score (evaluer_reponse_local ratio_sample analyzer_local question_eau reponse_eau)
   \<and> (\<exists>sc' fb'. grade ratio_sample search_sample
                    (\<lparr>req = [], forb = [], expected = ''H2O''\<rparr>\<lparr>forb := [] @ JStr ''h2'' # []\<rparr>)
                    ''h2o'' = Inr (sc', fb') \<and> sc' \<le> 40)"
proof -
  have a: "sublist (normaliser_texte ''h2'') (normaliser_texte reponse_eau)
      \<and> get_or [] (erreurs_a_eviter question_eau) = [''co2''] @ []"
  proof -
    have "py_in (normaliser_texte ''h2'') (normaliser_texte reponse_eau)" by code_simp
    then show ?thesis by (simp add: py_in_iff_sublist question_eau_def get_or_def)
  qed
  have "check_point search_sample (JStr ''h2'') (py_or ''h2o'' []) = Inr True"
    by code_simp
  moreover have "grade ratio_sample search_sample \<lparr>req = [], forb = [], expected = ''H2O''\<rparr> ''h2o''
        = Inr (40, \<lparr>similarity_score = 40, required_found = [], required_missing = [],
                    forbidden_detected = [], final = 40\<rparr>)"
    by code_simp
  ultimately have b: "check_point search_sample (JStr ''h2'') (py_or ''h2o'' []) = Inr True
      \<and> forb \<lparr>req = [], forb = [], expected = ''H2O''\<rparr> = [] @ []
      \<and> grade ratio_sample search_sample \<lparr>req = [], forb = [], expected = ''H2O''\<rparr> ''h2o''
          = Inr (40, \<lparr>similarity_score = 40, required_found = [], required_missing = [],
                      forbidden_detected = [], final = 40\<rparr>)"
    by simp
  from violated_point_never_increases_score
    [of "''h2''" reponse_eau question_eau "[''co2'']" "[]" ratio_sample analyzer_local
        search_sample "JStr ''h2''" "''h2o''" "\<lparr>req = [], forb = [], expected = ''H2O''\<rparr>"
        "[]" "[]" 40 "\<lparr>similarity_score = 40, required_found = [], required_missing = [],
                      forbidden_detected = [], final = 40\<rparr>"]
    a b
  show ?thesis by blast
qed

text \<open>
  Claim C4, as the code has it. The score of \<open>evaluer_reponse_local\<close> lies between 0 and
  100 for every rubric and answer (empty ones included) whenever the similarity ratio is
  at most 1, and the score of \<open>BaselineGrader.grade\<close> lies between 0 and 100 whenever it
  returns. The remote path returns the score of the JSON object as it is (0 when the
  object has none), whatever its value.
\<close>

theorem score_bounds:
  "(calculer_similarite ratio self a (get_or [] (reponse_attendue q)) \<le> 1
    \<longrightarrow> 0 \<le> score (evaluer_reponse_local ratio self q a)
        \<and> score (evaluer_reponse_local ratio self q a) \<le> 100)
   \<and> (grade ratio search g answer = Inr (sc, fb) \<longrightarrow> 0 \<le> sc \<and> sc \<le> 100)
   \<and> (model (construire_prompt_gemini q a) = Text t (Some (JObj kvs))
      \<and> evaluer_reponse_gemini model q a = Inr (res, prompt)
    \<longrightarrow> res ''score'' = Some (dict_get (dict_of kvs) ''score'' (JNum 0)))"
proof (intro conjI impI)
  assume s: "calculer_similarite ratio self a (get_or [] (reponse_attendue q)) \<le> 1"
  let ?v = "verifier_presence_elements self a (get_or [] (points_obligatoires q))"
  have "length (presents ?v) + length (partiels ?v) \<le> length (get_or [] (points_obligatoires q))"
    using length_three_classes [of "classer self a" "get_or [] (points_obligatoires q)"]
    by (simp add: verifier_presence_elements_filter)
  from spec_score_range [OF s this]
  show "0 \<le> score (evaluer_reponse_local ratio self q a)"
    and "score (evaluer_reponse_local ratio self q a) \<le> 100"
    by (simp_all only: score_final_local py_round_range)
next
  assume "grade ratio search g answer = Inr (sc, fb)"
  from grade_Inr [OF this] grade_score_range [of ratio g answer]
  show "0 \<le> sc" and "sc \<le> 100" by auto
next
  assume h: "model (construire_prompt_gemini q a) = Text t (Some (JObj kvs))
      \<and> evaluer_reponse_gemini model q a = Inr (res, prompt)"
  then obtain c where "res = defauts_gemini (dict_of kvs) c"
    by (auto simp: evaluer_reponse_gemini_objet split: sum.splits)
  then show "res ''score'' = Some (dict_get (dict_of kvs) ''score'' (JNum 0))"
    by (simp add: defauts_gemini_apply dict_get_def valeur_par_defaut_def split: option.split)
qed

theorem score_bounds_witness:
  "0 \<le> score (evaluer_reponse_local ratio_sample analyzer_local question_eau reponse_eau)
   \<and> score (evaluer_reponse_local ratio_sample analyzer_local question_eau reponse_eau) \<le> 100
   \<and> (0::rat) \<le> 40 \<and> (40::rat) \<le> 100
   \<and> defauts_gemini (dict_of []) False ''score'' = Some (dict_get (dict_of []) ''score'' (JNum 0))"
proof -
  have h1: "calculer_similarite ratio_sample analyzer_local reponse_eau
              (get_or [] (reponse_attendue question_eau)) \<le> 1"
    by (simp add: calculer_similarite_def analyzer_local_def ratio_sample_def)
  have h2: "grade ratio_sample search_sample \<lparr>req = [], forb = [], expected = ''H2O''\<rparr> ''h2o''
        = Inr (40, \<lparr>similarity_score = 40, required_found = [], required_missing = [],
                    forbidden_detected = [], final = 40\<rparr>)"
    by code_simp
  have h3: "(modele_constant reply_vide) (construire_prompt_gemini question_eau reponse_eau)
        = Text ''{}'' (Some (JObj []))
      \<and> evaluer_reponse_gemini (modele_constant reply_vide) question_eau reponse_eau
        = Inr (defauts_gemini (dict_of []) False,
               construire_prompt_gemini question_eau reponse_eau)"
    by (simp add: reply_vide_def modele_constant_def evaluer_reponse_gemini_def Let_def
        dict_of_def dict_get_def)
  from score_bounds
    [of ratio_sample analyzer_local reponse_eau question_eau search_sample
        "\<lparr>req = [], forb = [], expected = ''H2O''\<rparr>" "''h2o''" 40
        "\<lparr>similarity_score = 40, required_found = [], required_missing = [],
          forbidden_detected = [], final = 40\<rparr>"
        "modele_constant reply_vide" "''{}''" "[]" "defauts_gemini (dict_of []) False"
        "construire_prompt_gemini question_eau reponse_eau"]
    h1 h2 h3
  show ?thesis by blast
qed

text \<open>
  The claim as stated fails on the remote path: the reply \<open>{"score": 150}\<close> is
  returned by the router with the score 150.
\<close>

theorem score_bounds_counterexample:
  "resultat_score (fst (evaluer_reponse ratio_sample (analyzer_gemini reply_score_150)
                          question_eau reponse_eau)) = Some (JNum 150)
   \<and> \<not> score_in_range (fst (evaluer_reponse ratio_sample (analyzer_gemini reply_score_150)
                               question_eau reponse_eau))"
proof -
  have "evaluer_reponse_gemini (modele_constant reply_score_150) question_eau reponse_eau
        = Inr (defauts_gemini (dict_of [(''score'', JNum 150)]) True,
               construire_prompt_gemini question_eau reponse_eau)"
    by (simp add: reply_score_150_def modele_constant_def evaluer_reponse_gemini_def Let_def
        dict_of_def dict_get_def)
  then have "fst (evaluer_reponse ratio_sample (analyzer_gemini reply_score_150)
                    question_eau reponse_eau)
             = Gemini (defauts_gemini (dict_of [(''score'', JNum 150)]) True)"
    by (simp add: evaluer_reponse_def analyzer_gemini_def)
  then show ?thesis
    by (simp add: resultat_score_def score_in_range_def defauts_gemini_apply dict_of_def)
qed

section \<open>Claims about the router and the remote path\<close>

text \<open>
  Claim C3. For every rubric and answer, \<open>evaluer_reponse\<close> returns a result (it is a
  total function: no exception leaves it). When no Gemini model is configured, or its
  call raises, or \<open>evaluer_reponse_gemini\<close> raises any exception, the result is exactly
  the dictionary of \<open>evaluer_reponse_local\<close> for the same rubric and answer, and the
  returned text is one of the two messages that say the local mode was used.
\<close>

theorem evaluer_reponse_fallback:
  assumes "gemini_model self = None
         \<or> (\<exists>model e. gemini_model self = Some model
                \<and> model (construire_prompt_gemini q a) = CallRaises e)
         \<or> (\<exists>model e. gemini_model self = Some model
                \<and> evaluer_reponse_gemini model q a = Inl e)"
  shows "fst (evaluer_reponse ratio self q a) = Local (evaluer_reponse_local ratio self q a)
       \<and> sublist ''local'' (snd (evaluer_reponse ratio self q a))
       \<and> (snd (evaluer_reponse ratio self q a) = mode_local_non_configure
            \<or> (\<exists>e. snd (evaluer_reponse ratio self q a) = mode_local_erreur e))"
proof -
  from assms consider
      (none) "gemini_model self = None"
    | (fails) model e where "gemini_model self = Some model"
        "evaluer_reponse_gemini model q a = Inl e"
    by (auto simp: evaluer_reponse_gemini_def Let_def)
  then show ?thesis
  proof cases
    case none
    then have "evaluer_reponse ratio self q a
               = (Local (evaluer_reponse_local ratio self q a), mode_local_non_configure)"
      by (simp add: evaluer_reponse_def)
    then show ?thesis by (simp add: sublist_local_non_configure)
  next
    case fails
    then have "evaluer_reponse ratio self q a
               = (Local (evaluer_reponse_local ratio self q a), mode_local_erreur e)"
      by (simp add: evaluer_reponse_def)
    then show ?thesis using sublist_local_erreur [of e] by auto
  qed
qed

theorem evaluer_reponse_fallback_witness:
  "gemini_model (analyzer_gemini (CallRaises (Exn OtherError ''timeout''))) \<noteq> None \<and>
   fst (evaluer_reponse ratio_sample (analyzer_gemini (CallRaises (Exn OtherError ''timeout'')))
          question_eau reponse_eau)
     = Local (evaluer_reponse_local ratio_sample
                (analyzer_gemini (CallRaises (Exn OtherError ''timeout''))) question_eau reponse_eau) \<and>
   fst (evaluer_reponse ratio_sample analyzer_local question_eau reponse_eau)
     = Local (evaluer_reponse_local ratio_sample analyzer_local question_eau reponse_eau)"
proof -
  let ?self = "analyzer_gemini (CallRaises (Exn OtherError ''timeout''))"
  have h1: "gemini_model ?self = None
         \<or> (\<exists>model e. gemini_model ?self = Some model
                \<and> model (construire_prompt_gemini question_eau reponse_eau) = CallRaises e)
         \<or> (\<exists>model e. gemini_model ?self = Some model
                \<and> evaluer_reponse_gemini model question_eau reponse_eau = Inl e)"
    by (simp add: analyzer_gemini_def modele_constant_def)
  have h2: "gemini_model analyzer_local = None
         \<or> (\<exists>model e. gemini_model analyzer_local = Some model
                \<and> model (construire_prompt_gemini question_eau reponse_eau) = CallRaises e)
         \<or> (\<exists>model e. gemini_model analyzer_local = Some model
                \<and> evaluer_reponse_gemini model question_eau reponse_eau = Inl e)"
    by (simp add: analyzer_local_def)
  show ?thesis
    using evaluer_reponse_fallback [OF h1, of ratio_sample]
      evaluer_reponse_fallback [OF h2, of ratio_sample]
    by (simp add: analyzer_gemini_def)
qed

text \<open>
  Claim C6, as the code has it. For every reply that parses as a JSON object whose
  \<open>score\<close> is absent or a number, \<open>evaluer_reponse_gemini\<close> returns the object with every
  key it has left as it is and every missing key filled with its default: \<open>est_correct\<close>
  with \<open>score >= 60\<close> (the score read as 0 when absent), \<open>similarite\<close> and \<open>score\<close> with
  0, the four lists of points with the empty list, and \<open>suggestions\<close> with a list of one
  fixed sentence. When the \<open>score\<close> of the object is not a number, the comparison raises
  \<open>TypeError\<close>. The function raises in no other case than: the call or the \<open>text\<close>
  property raises, the text is not JSON, the JSON value is not an object, or the score
  of the object is not a number.
\<close>

theorem evaluer_reponse_gemini_defaults:
  "(model (construire_prompt_gemini q a) = Text t (Some (JObj kvs))
      \<and> est_nombre (dict_get (dict_of kvs) ''score'' (JNum 0))
    \<longrightarrow> (\<exists>res c. evaluer_reponse_gemini model q a = Inr (res, construire_prompt_gemini q a)
           \<and> py_ge60 (dict_get (dict_of kvs) ''score'' (JNum 0)) = Inr c
           \<and> (\<forall>k. res k = (case dict_of kvs k of Some v \<Rightarrow> Some v
                                              | None \<Rightarrow> valeur_par_defaut c k))))
   \<and> (model (construire_prompt_gemini q a) = Text t (Some (JObj kvs))
      \<and> \<not> est_nombre (dict_get (dict_of kvs) ''score'' (JNum 0))
    \<longrightarrow> (\<exists>msg. evaluer_reponse_gemini model q a = Inl (Exn TypeError msg)))
   \<and> (evaluer_reponse_gemini model q a = Inl e
    \<longrightarrow> model (construire_prompt_gemini q a) = CallRaises e
        \<or> model (construire_prompt_gemini q a) = TextRaises e
        \<or> (\<exists>t'. model (construire_prompt_gemini q a) = Text t' None \<and> e = erreur_parsing t')
        \<or> (\<exists>t' j. model (construire_prompt_gemini q a) = Text t' (Some j)
                    \<and> (\<forall>kvs'. j \<noteq> JObj kvs') \<and> e = erreur_parsing t')
        \<or> (\<exists>t' kvs'. model (construire_prompt_gemini q a) = Text t' (Some (JObj kvs'))
                    \<and> \<not> est_nombre (dict_get (dict_of kvs') ''score'' (JNum 0))))"
proof (intro conjI impI)
  assume h: "model (construire_prompt_gemini q a) = Text t (Some (JObj kvs))
      \<and> est_nombre (dict_get (dict_of kvs) ''score'' (JNum 0))"
  then obtain c where c: "py_ge60 (dict_get (dict_of kvs) ''score'' (JNum 0)) = Inr c"
    using py_ge60_nombre by blast
  with h have "evaluer_reponse_gemini model q a
               = Inr (defauts_gemini (dict_of kvs) c, construire_prompt_gemini q a)"
    by (simp add: evaluer_reponse_gemini_objet)
  with c show "\<exists>res c. evaluer_reponse_gemini model q a = Inr (res, construire_prompt_gemini q a)
           \<and> py_ge60 (dict_get (dict_of kvs) ''score'' (JNum 0)) = Inr c
           \<and> (\<forall>k. res k = (case dict_of kvs k of Some v \<Rightarrow> Some v
                                              | None \<Rightarrow> valeur_par_defaut c k))"
    using defauts_gemini_apply by blast
next
  assume h: "model (construire_prompt_gemini q a) = Text t (Some (JObj kvs))
      \<and> \<not> est_nombre (dict_get (dict_of kvs) ''score'' (JNum 0))"
  then obtain msg where "py_ge60 (dict_get (dict_of kvs) ''score'' (JNum 0)) = Inl (Exn TypeError msg)"
    using py_ge60_autre by blast
  with h show "\<exists>msg. evaluer_reponse_gemini model q a = Inl (Exn TypeError msg)"
    by (simp add: evaluer_reponse_gemini_objet)
next
  assume h: "evaluer_reponse_gemini model q a = Inl e"
  show "model (construire_prompt_gemini q a) = CallRaises e
        \<or> model (construire_prompt_gemini q a) = TextRaises e
        \<or> (\<exists>t'. model (construire_prompt_gemini q a) = Text t' None \<and> e = erreur_parsing t')
        \<or> (\<exists>t' j. model (construire_prompt_gemini q a) = Text t' (Some j)
                    \<and> (\<forall>kvs'. j \<noteq> JObj kvs') \<and> e = erreur_parsing t')
        \<or> (\<exists>t' kvs'. model (construire_prompt_gemini q a) = Text t' (Some (JObj kvs'))
                    \<and> \<not> est_nombre (dict_get (dict_of kvs') ''score'' (JNum 0)))"
  proof (cases "model (construire_prompt_gemini q a)")
    case (CallRaises e')
    with h show ?thesis by (simp add: evaluer_reponse_gemini_def Let_def)
  next
    case (TextRaises e')
    with h show ?thesis by (simp add: evaluer_reponse_gemini_def Let_def)
  next
    case (Text t' parsed)
    show ?thesis
    proof (cases parsed)
      case None
      with h Text show ?thesis by (simp add: evaluer_reponse_gemini_def Let_def)
    next
      case (Some j)
      show ?thesis
      proof (cases "\<exists>kvs'. j = JObj kvs'")
        case True
        then obtain kvs' where j: "j = JObj kvs'" by blast
        have "\<not> est_nombre (dict_get (dict_of kvs') ''score'' (JNum 0))"
        proof
          assume "est_nombre (dict_get (dict_of kvs') ''score'' (JNum 0))"
          then obtain c where "py_ge60 (dict_get (dict_of kvs') ''score'' (JNum 0)) = Inr c"
            using py_ge60_nombre by blast
          with h Text Some j show False by (simp add: evaluer_reponse_gemini_objet)
        qed
        with Text Some j show ?thesis by blast
      next
        case False
        with h Text Some have "e = erreur_parsing t'"
          by (cases j) (simp_all add: evaluer_reponse_gemini_def Let_def)
        then show ?thesis using Text Some False by blast
      qed
    qed
  qed
qed

theorem evaluer_reponse_gemini_defaults_witness:
  "(\<exists>res. evaluer_reponse_gemini (modele_constant reply_vide) question_eau reponse_eau
            = Inr (res, construire_prompt_gemini question_eau reponse_eau)
         \<and> res ''est_correct'' = Some (JBool False)
         \<and> res ''elements_presents'' = Some (JArr [])
         \<and> res ''score'' = Some (JNum 0))
   \<and> (\<exists>msg. evaluer_reponse_gemini (modele_constant reply_score_abc) question_eau reponse_eau
              = Inl (Exn TypeError msg))
   \<and> (\<exists>t' kvs'. reply_score_abc = Text t' (Some (JObj kvs'))
              \<and> \<not> est_nombre (dict_get (dict_of kvs') ''score'' (JNum 0)))"
proof -
  have h1: "modele_constant reply_vide (construire_prompt_gemini question_eau reponse_eau)
              = Text ''{}'' (Some (JObj []))
      \<and> est_nombre (dict_get (dict_of []) ''score'' (JNum 0))"
    by (simp add: modele_constant_def reply_vide_def dict_get_def dict_of_def)
  have h2: "modele_constant reply_score_abc (construire_prompt_gemini question_eau reponse_eau)
              = Text (''{'' @ [CHR 0x22] @ ''score'' @ [CHR 0x22] @ '': '' @ [CHR 0x22] @ ''abc''
                      @ [CHR 0x22] @ ''}'') (Some (JObj [(''score'', JStr ''abc'')]))
      \<and> \<not> est_nombre (dict_get (dict_of [(''score'', JStr ''abc'')]) ''score'' (JNum 0))"
    by (simp add: modele_constant_def reply_score_abc_def dict_get_def dict_of_def)
  from evaluer_reponse_gemini_defaults
    [where model = "modele_constant reply_vide" and q = question_eau and a = reponse_eau
       and t = "''{}''" and kvs = "[]"] h1
  obtain res c where r: "evaluer_reponse_gemini (modele_constant reply_vide) question_eau reponse_eau
            = Inr (res, construire_prompt_gemini question_eau reponse_eau)"
    and c: "py_ge60 (dict_get (dict_of []) ''score'' (JNum 0)) = Inr c"
    and k: "\<forall>k. res k = (case dict_of [] k of Some v \<Rightarrow> Some v
                                            | None \<Rightarrow> valeur_par_defaut c k)"
    by blast
  from c have "c = False" by (simp add: dict_get_def dict_of_def)
  with k have "res ''est_correct'' = Some (JBool False)"
    "res ''elements_presents'' = Some (JArr [])" "res ''score'' = Some (JNum 0)"
    by (simp_all add: dict_of_def valeur_par_defaut_def)
  with r have first: "\<exists>res. evaluer_reponse_gemini (modele_constant reply_vide) question_eau reponse_eau
            = Inr (res, construire_prompt_gemini question_eau reponse_eau)
         \<and> res ''est_correct'' = Some (JBool False)
         \<and> res ''elements_presents'' = Some (JArr [])
         \<and> res ''score'' = Some (JNum 0)"
    by blast
  from evaluer_reponse_gemini_defaults
    [where model = "modele_constant reply_score_abc" and q = question_eau and a = reponse_eau
       and t = "''{'' @ [CHR 0x22] @ ''score'' @ [CHR 0x22] @ '': '' @ [CHR 0x22] @ ''abc''
                      @ [CHR 0x22] @ ''}''"
       and kvs = "[(''score'', JStr ''abc'')]"] h2
  have second: "\<exists>msg. evaluer_reponse_gemini (modele_constant reply_score_abc) question_eau reponse_eau
              = Inl (Exn TypeError msg)"
    by blast
  then obtain msg where h3: "evaluer_reponse_gemini (modele_constant reply_score_abc)
                               question_eau reponse_eau = Inl (Exn TypeError msg)"
    by blast
  from evaluer_reponse_gemini_defaults
    [where model = "modele_constant reply_score_abc" and q = question_eau and a = reponse_eau
       and e = "Exn TypeError msg"] h3
  have third: "\<exists>t' kvs'. reply_score_abc = Text t' (Some (JObj kvs'))
              \<and> \<not> est_nombre (dict_get (dict_of kvs') ''score'' (JNum 0))"
    by (simp add: modele_constant_def reply_score_abc_def)
  from first second third show ?thesis by blast
qed

text \<open>
  The claim as stated fails: the reply \<open>{"score": "abc"}\<close> parses as a JSON object,
  and \<open>evaluer_reponse_gemini\<close> raises \<open>TypeError\<close> on it instead of returning a
  result.
\<close>

theorem evaluer_reponse_gemini_defaults_counterexample:
  "evaluer_reponse_gemini (modele_constant reply_score_abc) question_eau reponse_eau
     = Inl (Exn TypeError
         ([CHR 0x27] @ ''>='' @ [CHR 0x27] @ '' not supported between instances of '' @
          [CHR 0x27] @ ''str'' @ [CHR 0x27] @ '' and '' @ [CHR 0x27] @ ''int'' @ [CHR 0x27]))"
  by (simp add: modele_constant_def reply_score_abc_def evaluer_reponse_gemini_def Let_def
      dict_get_def dict_of_def)

text \<open>
  Claim C10. For every reply parsed as a JSON object without the key \<open>est_correct\<close>:
  whenever \<open>evaluer_reponse_gemini\<close> returns, the returned \<open>est_correct\<close> is the value of
  \<open>score >= 60\<close> on the score the object had before the defaults were filled in (0 when
  it had none), and it does return when that score is a number or absent. In
  particular an object with neither \<open>score\<close> nor \<open>est_correct\<close> yields score 0 and
  \<open>est_correct\<close> false.
\<close>

theorem est_correct_derived_from_score:
  assumes "model (construire_prompt_gemini q a) = Text t (Some (JObj kvs))"
    and "dict_of kvs ''est_correct'' = None"
  shows "(\<forall>res p. evaluer_reponse_gemini model q a = Inr (res, p)
            \<longrightarrow> (\<exists>c. py_ge60 (dict_get (dict_of kvs) ''score'' (JNum 0)) = Inr c
                     \<and> res ''est_correct'' = Some (JBool c)))
       \<and> (\<forall>x. dict_of kvs ''score'' = Some (JNum x)
            \<longrightarrow> (\<exists>res p. evaluer_reponse_gemini model q a = Inr (res, p)
                     \<and> res ''score'' = Some (JNum x)
                     \<and> res ''est_correct'' = Some (JBool (60 \<le> x))))
       \<and> (dict_of kvs ''score'' = None
            \<longrightarrow> (\<exists>res p. evaluer_reponse_gemini model q a = Inr (res, p)
                     \<and> res ''score'' = Some (JNum 0)
                     \<and> res ''est_correct'' = Some (JBool False)))"
proof -
  note g = evaluer_reponse_gemini_objet [of model q a t kvs, OF assms(1)]
  have ec: "defauts_gemini (dict_of kvs) c ''est_correct'' = Some (JBool c)" for c
    using assms(2) by (simp add: defauts_gemini_apply valeur_par_defaut_def)
  have sc: "defauts_gemini (dict_of kvs) c ''score''
            = Some (dict_get (dict_of kvs) ''score'' (JNum 0))" for c
    by (simp add: defauts_gemini_apply dict_get_def valeur_par_defaut_def split: option.split)
  show ?thesis
  proof (intro conjI allI impI)
    fix res p
    assume "evaluer_reponse_gemini model q a = Inr (res, p)"
    with g show "\<exists>c. py_ge60 (dict_get (dict_of kvs) ''score'' (JNum 0)) = Inr c
                     \<and> res ''est_correct'' = Some (JBool c)"
      using ec by (auto split: sum.splits)
  next
    fix x
    assume "dict_of kvs ''score'' = Some (JNum x)"
    then have d: "dict_get (dict_of kvs) ''score'' (JNum 0) = JNum x"
      by (simp add: dict_get_def)
    with g have "evaluer_reponse_gemini model q a
                 = Inr (defauts_gemini (dict_of kvs) (60 \<le> x), construire_prompt_gemini q a)"
      by simp
    with ec [of "60 \<le> x"] sc [of "60 \<le> x"] d
    show "\<exists>res p. evaluer_reponse_gemini model q a = Inr (res, p)
                     \<and> res ''score'' = Some (JNum x)
                     \<and> res ''est_correct'' = Some (JBool (60 \<le> x))"
      by simp
  next
    assume "dict_of kvs ''score'' = None"
    then have d: "dict_get (dict_of kvs) ''score'' (JNum 0) = JNum 0"
      by (simp add: dict_get_def)
    with g have "evaluer_reponse_gemini model q a
                 = Inr (defauts_gemini (dict_of kvs) False, construire_prompt_gemini q a)"
      by simp
    with ec [of False] sc [of False] d
    show "\<exists>res p. evaluer_reponse_gemini model q a = Inr (res, p)
                     \<and> res ''score'' = Some (JNum 0)
                     \<and> res ''est_correct'' = Some (JBool False)"
      by simp
  qed
qed

theorem est_correct_derived_from_score_witness:
  "\<exists>res p. evaluer_reponse_gemini (modele_constant reply_vide) question_eau reponse_eau
             = Inr (res, p)
         \<and> res ''score'' = Some (JNum 0)
         \<and> res ''est_correct'' = Some (JBool False)"
proof -
  have h1: "modele_constant reply_vide (construire_prompt_gemini question_eau reponse_eau)
              = Text ''{}'' (Some (JObj []))"
    by (simp add: modele_constant_def reply_vide_def)
  have h2: "dict_of [] ''est_correct'' = None"
    by (simp add: dict_of_def)
  have h3: "dict_of [] ''score'' = None"
    by (simp add: dict_of_def)
  from est_correct_derived_from_score
    [where model = "modele_constant reply_vide" and q = question_eau and a = reponse_eau
       and t = "''{}''" and kvs = "[]", OF h1 h2] h3
  show ?thesis
    by blast
qed

end
